theory Spec2Isabelle
  imports Main "HOL-Library.Word" "HOL-Library.AList"
begin

unbundle bit_operations_syntax

section \<open>Data model of tracer-fentry.c\<close>

text \<open>
  The file under verification is \<^verbatim>\<open>pkg/network/ebpf/c/co-re/tracer-fentry.c\<close>.
  Its headers (\<^verbatim>\<open>tracer.h\<close>, \<^verbatim>\<open>sock.h\<close>, \<^verbatim>\<open>ipv6.h\<close>, \<^verbatim>\<open>sockfd.h\<close>, \<^verbatim>\<open>port.h\<close>, ...) are not
  among the sources. Types they declare are modelled with the fields and widths this
  file uses; pure helpers they define are parameters of the model (record \<open>ext\<close>);
  helpers with an effect outside this file are recorded as calls, in order.
\<close>

type_synonym u16 = "16 word"
type_synonym u32 = "32 word"
type_synonym u64 = "64 word"

text \<open>A \<^verbatim>\<open>struct sock *\<close> is only ever a map key or an argument: a kernel address.\<close>

type_synonym sock_ptr = u64

text \<open>
  \<^verbatim>\<open>conn_tuple_t\<close>: the fields the file touches. The addresses are two 64-bit halves
  (\<^verbatim>\<open>t->saddr_l >> 32\<close>), the ports 16-bit, \<^verbatim>\<open>pid\<close> the upper half of \<^verbatim>\<open>pid_tgid\<close>.
\<close>

record conn_tuple_t =
  saddr_h :: u64
  saddr_l :: u64
  daddr_h :: u64
  daddr_l :: u64
  sport :: u16
  dport :: u16
  netns :: u32
  pid :: u32
  metadata :: u32

text \<open>\<^verbatim>\<open>conn_tuple_t t = {};\<close>\<close>

definition conn_tuple_zero :: conn_tuple_t where
  "conn_tuple_zero =
     \<lparr>saddr_h = 0, saddr_l = 0, daddr_h = 0, daddr_l = 0, sport = 0, dport = 0,
      netns = 0, pid = 0, metadata = 0\<rparr>"

text \<open>
  \<^verbatim>\<open>struct flowi4\<close> as \<^verbatim>\<open>BPF_CORE_READ\<close> sees it: \<^verbatim>\<open>saddr\<close>, \<^verbatim>\<open>daddr\<close> (\<^verbatim>\<open>__be32\<close>),
  \<^verbatim>\<open>fl4_sport\<close>, \<^verbatim>\<open>fl4_dport\<close> (\<^verbatim>\<open>__be16\<close>).
\<close>

record flowi4 =
  fl4_saddr :: u32
  fl4_daddr :: u32
  fl4_sport :: u16
  fl4_dport :: u16

text \<open>
  \<^verbatim>\<open>struct in6_addr\<close> is kept as the two 64-bit halves that
  \<^verbatim>\<open>read_in6_addr(&h, &l, &addr)\<close> stores: \<open>in6_h\<close> is the first eight bytes of the
  address as the host reads them, \<open>in6_l\<close> the last eight.
\<close>

record in6_addr =
  in6_h :: u64
  in6_l :: u64

record flowi6 =
  fl6_saddr :: in6_addr
  fl6_daddr :: in6_addr
  fl6_sport :: u16
  fl6_dport :: u16

text \<open>
  Kernel constants (\<^verbatim>\<open>ktypes.h\<close>), as Linux defines them, and \<^verbatim>\<open>MSG_PEEK\<close> as line 18
  defines it. They are compared with fields of different widths, hence the polymorphic
  word type.
\<close>

definition AF_INET :: "'a::len word" where
  "AF_INET = 2"

definition AF_INET6 :: "'a::len word" where
  "AF_INET6 = 10"

definition SOCK_STREAM :: "'a::len word" where
  "SOCK_STREAM = 1"

definition SOCK_DGRAM :: "'a::len word" where
  "SOCK_DGRAM = 2"

definition MSG_PEEK :: "'a::len word" where
  "MSG_PEEK = 2"

text \<open>
  \<^verbatim>\<open>struct socket\<close> with the fields read through \<^verbatim>\<open>BPF_CORE_READ\<close>: \<^verbatim>\<open>ops\<close> (a pointer,
  \<open>None\<close> when NULL, to a \<^verbatim>\<open>struct proto_ops\<close> of which \<^verbatim>\<open>family\<close> is read), \<^verbatim>\<open>type\<close> and
  \<^verbatim>\<open>sk\<close>.
\<close>

record proto_ops =
  po_family :: u32

record socket =
  so_ops :: "proto_ops option"
  so_type :: u16
  so_sk :: sock_ptr

text \<open>
  \<^verbatim>\<open>struct sockaddr\<close>, seen as \<^verbatim>\<open>sockaddr_in\<close> or \<^verbatim>\<open>sockaddr_in6\<close> by the casts of
  \<^verbatim>\<open>sys_exit_bind\<close>: the family and the port under either view.
\<close>

record sockaddr =
  sa_family :: u16
  sin_port :: u16
  sin6_port :: u16

text \<open>\<^verbatim>\<open>struct msghdr\<close>: only \<^verbatim>\<open>msg_name\<close>, a pointer, is looked at.\<close>

record msghdr =
  msg_name :: u64

text \<open>\<^verbatim>\<open>pid_fd_t\<close> (\<^verbatim>\<open>.pid\<close>, \<^verbatim>\<open>.fd\<close>) and \<^verbatim>\<open>port_binding_t\<close> (\<^verbatim>\<open>.netns\<close>, \<^verbatim>\<open>.port\<close>).\<close>

record pid_fd_t =
  pf_pid :: u32
  pf_fd :: u32

record port_binding_t =
  pb_netns :: u32
  pb_port :: u16

datatype conn_direction_t =
  CONN_DIRECTION_UNKNOWN | CONN_DIRECTION_INCOMING | CONN_DIRECTION_OUTGOING

datatype packet_count_increment_t =
  PACKET_COUNT_ABSOLUTE | PACKET_COUNT_INCREMENT | PACKET_COUNT_NONE

text \<open>The two binding maps \<^verbatim>\<open>port_bindings\<close> and \<^verbatim>\<open>udp_port_bindings\<close> of \<^verbatim>\<open>port.h\<close>.\<close>

datatype port_map = Port_bindings | Udp_port_bindings

text \<open>
  A call that leaves this file for a function of an absent header: the function and its
  arguments. \<^verbatim>\<open>handle_message(t, sent_bytes, recv_bytes, direction, packets_out,
  packets_in, segs_type, sk)\<close> is the forwarding of an observation,
  \<^verbatim>\<open>cleanup_conn(t, sk)\<close> the finalization of a close, \<^verbatim>\<open>add_port_bind(pb, map)\<close> the
  recording of a binding, \<^verbatim>\<open>clear_sockfd_maps(sk)\<close> the clearing of a socket's entries in
  the descriptor index; \<^verbatim>\<open>read_conn_tuple\<close> and \<^verbatim>\<open>read_conn_tuple_partial\<close> are the
  attempts to resolve a tuple from a socket.
\<close>

datatype call =
    Read_conn_tuple sock_ptr u64 u32
  | Read_conn_tuple_partial sock_ptr u64 u32
  | Sockaddr_to_addr u64
  | Read_sport sock_ptr
  | Get_tcp_segment_counts sock_ptr
  | Handle_tcp_stats conn_tuple_t sock_ptr int
  | Handle_tcp_recv u64 sock_ptr int
  | Handle_message conn_tuple_t int int conn_direction_t u32 u32 packet_count_increment_t sock_ptr
  | Cleanup_conn conn_tuple_t sock_ptr
  | Add_port_bind port_binding_t port_map
  | Clear_sockfd_maps sock_ptr

section \<open>Maps and state\<close>

text \<open>
  A BPF hash map: its capacity and its entries, one per key. The kernel's
  \<^verbatim>\<open>bpf_map_update_elem\<close> with \<^verbatim>\<open>BPF_ANY\<close> replaces the value of a key that is present
  and inserts a new key while there is room; in a full map the insertion fails and the
  map stays as it was (the spec: "insertion beyond capacity fails silently", "drop new
  entry"). No caller in this file looks at the result of an update.
\<close>

record ('k, 'v) bpf_map =
  max_entries :: nat
  entries :: "('k \<times> 'v) list"

definition bpf_map_lookup_elem :: "('k, 'v) bpf_map \<Rightarrow> 'k \<Rightarrow> 'v option" where
  "bpf_map_lookup_elem m k = map_of (entries m) k"

definition bpf_map_delete_elem :: "('k, 'v) bpf_map \<Rightarrow> 'k \<Rightarrow> ('k, 'v) bpf_map" where
  "bpf_map_delete_elem m k = m\<lparr>entries := AList.delete k (entries m)\<rparr>"

definition bpf_map_update_elem :: "('k, 'v) bpf_map \<Rightarrow> 'k \<Rightarrow> 'v \<Rightarrow> ('k, 'v) bpf_map" where
  "bpf_map_update_elem m k v =
     (if k \<in> fst ` set (entries m) \<or> length (entries m) < max_entries m
      then m\<lparr>entries := AList.update k v (entries m)\<rparr>
      else m)"

text \<open>
  Modelled from the spec: \<^verbatim>\<open>bpf_map_update_with_telemetry\<close> is a macro of
  \<^verbatim>\<open>bpf_telemetry.h\<close>, which is not among the sources. The spec has map insertions fail
  silently at capacity, so the macro is the plain update; what it counts on a failure
  is not part of this state.
\<close>

definition bpf_map_update_with_telemetry ::
  "('k, 'v) bpf_map \<Rightarrow> 'k \<Rightarrow> 'v \<Rightarrow> ('k, 'v) bpf_map" where
  "bpf_map_update_with_telemetry m k v = bpf_map_update_elem m k v"

text \<open>
  What the absent headers provide, as parameters of the model: the byte-order
  conversion \<^verbatim>\<open>bpf_ntohs\<close>, the test \<^verbatim>\<open>is_ipv4_mapped_ipv6\<close> (\<^verbatim>\<open>ipv6.h\<close>), the bits of
  \<^verbatim>\<open>metadata_mask_t\<close> (\<^verbatim>\<open>tracer.h\<close>), and the results of the functions that read a kernel
  object: \<^verbatim>\<open>read_conn_tuple\<close> and \<^verbatim>\<open>read_conn_tuple_partial\<close> (\<^verbatim>\<open>sock.h\<close>) take the tuple as
  it stands and give the return value with the tuple as they leave it,
  \<^verbatim>\<open>sockaddr_to_addr\<close> takes the four fields it may write, \<^verbatim>\<open>get_tcp_segment_counts\<close>
  gives \<^verbatim>\<open>packets_in\<close> and \<^verbatim>\<open>packets_out\<close>, \<open>call_ret\<close> is the value a recorded call
  returns. \<^verbatim>\<open>clear_sockfd_maps\<close> (\<^verbatim>\<open>sockfd.h\<close>) is handed a socket and works on the two maps
  of the descriptor index, \<^verbatim>\<open>sock_by_pid_fd\<close> and \<^verbatim>\<open>pid_fd_by_sock\<close>: it takes them as they
  stand and gives them as it leaves them; which entries it deletes is its own affair.
  Every theorem below holds for all values of these parameters unless it says
  otherwise.
\<close>

record ext =
  bpf_ntohs :: "u16 \<Rightarrow> u16"
  is_ipv4_mapped_ipv6 :: "u64 \<Rightarrow> u64 \<Rightarrow> u64 \<Rightarrow> u64 \<Rightarrow> bool"
  CONN_V4 :: u32
  CONN_V6 :: u32
  CONN_TYPE_TCP :: u32
  CONN_TYPE_UDP :: u32
  read_conn_tuple :: "conn_tuple_t \<Rightarrow> sock_ptr \<Rightarrow> u64 \<Rightarrow> u32 \<Rightarrow> int \<times> conn_tuple_t"
  read_conn_tuple_partial :: "conn_tuple_t \<Rightarrow> sock_ptr \<Rightarrow> u64 \<Rightarrow> u32 \<Rightarrow> int \<times> conn_tuple_t"
  sockaddr_to_addr :: "u64 \<Rightarrow> u64 \<times> u64 \<times> u16 \<times> u32 \<Rightarrow> u64 \<times> u64 \<times> u16 \<times> u32"
  read_sport :: "sock_ptr \<Rightarrow> u16"
  get_tcp_segment_counts :: "sock_ptr \<Rightarrow> u32 \<times> u32"
  call_ret :: "call \<Rightarrow> int"
  clear_sockfd_maps ::
    "sock_ptr \<Rightarrow> (pid_fd_t, sock_ptr) bpf_map \<times> (sock_ptr, pid_fd_t) bpf_map
       \<Rightarrow> (pid_fd_t, sock_ptr) bpf_map \<times> (sock_ptr, pid_fd_t) bpf_map"

text \<open>
  The state a handler runs on: the two maps this file declares (line 20-21; of
  \<^verbatim>\<open>udp6_send_skb_args\<close> nothing is ever read or written), the maps of \<^verbatim>\<open>tracer-maps.h\<close>
  it reads and writes itself, the telemetry counter \<^verbatim>\<open>udp_send_missed\<close>, and the calls
  made so far into the absent headers, oldest first. \<^verbatim>\<open>udp_send_skb_args\<close> is a per-CPU
  map: the state is the view of the CPU the handlers run on.
\<close>

record state =
  udp_send_skb_args :: "(u64, conn_tuple_t) bpf_map"
  tcp_ongoing_connect_pid :: "(sock_ptr, u64) bpf_map"
  sock_by_pid_fd :: "(pid_fd_t, sock_ptr) bpf_map"
  pid_fd_by_sock :: "(sock_ptr, pid_fd_t) bpf_map"
  udp_send_missed :: nat
  calls :: "call list"

definition do_call :: "call \<Rightarrow> state \<Rightarrow> state" where
  "do_call c s = s\<lparr>calls := calls s @ [c]\<rparr>"

text \<open>
  Modelled from the spec: \<^verbatim>\<open>increment_telemetry_count\<close> is a macro of
  \<^verbatim>\<open>tracer-telemetry.h\<close>, which is not among the sources. The spec calls these
  "fire-and-forget monotonic counters"; the only one this file names is
  \<^verbatim>\<open>udp_send_missed\<close>.
\<close>

definition increment_telemetry_count_udp_send_missed :: "state \<Rightarrow> state" where
  "increment_telemetry_count_udp_send_missed s = s\<lparr>udp_send_missed := udp_send_missed s + 1\<rparr>"

section \<open>Partial resolution from a flow descriptor\<close>

text \<open>
  The two resolvers mutate \<^verbatim>\<open>*t\<close> and return 0 or 1. The model returns the pair of
  the return value and the tuple as the function leaves it, on every path. Each
  function is cut at its blank lines into the blocks of the source; a block is a
  function from tuple to tuple.
\<close>

text \<open>Lines 27-32: the IPv4 addresses are read from the flow where the tuple has none.\<close>

definition flowi4_addrs :: "conn_tuple_t \<Rightarrow> flowi4 \<Rightarrow> conn_tuple_t" where
  "flowi4_addrs t0 fl4 =
     (let t = (if saddr_l t0 = 0 then t0\<lparr>saddr_l := ucast (fl4_saddr fl4)\<rparr> else t0);
          t = (if daddr_l t = 0 then t\<lparr>daddr_l := ucast (fl4_daddr fl4)\<rparr> else t)
      in t)"

text \<open>
  Lines 39-46: \<^verbatim>\<open>t->sport = BPF_CORE_READ(fl4, fl4_sport); t->sport = bpf_ntohs(t->sport);\<close>
  and the same for the destination port.
\<close>

definition flowi4_ports :: "ext \<Rightarrow> conn_tuple_t \<Rightarrow> flowi4 \<Rightarrow> conn_tuple_t" where
  "flowi4_ports x t0 fl4 =
     (let t = (if sport t0 = 0 then t0\<lparr>sport := bpf_ntohs x (fl4_sport fl4)\<rparr> else t0);
          t = (if dport t = 0 then t\<lparr>dport := bpf_ntohs x (fl4_dport fl4)\<rparr> else t)
      in t)"

text \<open>\<^verbatim>\<open>read_conn_tuple_partial_from_flowi4\<close> (lines 23-54).\<close>

definition read_conn_tuple_partial_from_flowi4 ::
  "ext \<Rightarrow> conn_tuple_t \<Rightarrow> flowi4 \<Rightarrow> u64 \<Rightarrow> u32 \<Rightarrow> int \<times> conn_tuple_t" where
  "read_conn_tuple_partial_from_flowi4 x t0 fl4 pid_tgid type =
     (let t = t0\<lparr>pid := ucast (drop_bit 32 pid_tgid), metadata := type\<rparr>;
          t = flowi4_addrs t fl4
      in if saddr_l t = 0 \<or> daddr_l t = 0 then (0, t)
         else
           let t = flowi4_ports x t fl4
           in if sport t = 0 \<or> dport t = 0 then (0, t) else (1, t))"

text \<open>
  Lines 60-67: \<^verbatim>\<open>read_in6_addr\<close> stores both halves of the flow's address, and it is
  called when either half of the tuple's address is zero.
\<close>

definition flowi6_addrs :: "conn_tuple_t \<Rightarrow> flowi6 \<Rightarrow> conn_tuple_t" where
  "flowi6_addrs t0 fl6 =
     (let addr = fl6_saddr fl6;
          t = (if saddr_l t0 = 0 \<or> saddr_h t0 = 0
               then t0\<lparr>saddr_h := in6_h addr, saddr_l := in6_l addr\<rparr> else t0);
          t = (if daddr_l t = 0 \<or> daddr_h t = 0
               then (let addr = fl6_daddr fl6
                     in t\<lparr>daddr_h := in6_h addr, daddr_l := in6_l addr\<rparr>)
               else t)
      in t)"

text \<open>
  Lines 78-87. \<^verbatim>\<open>(u32)(t->saddr_l >> 32)\<close> stored back into the 64-bit field is the upper
  32 bits of the low half, zero-extended.
\<close>

definition flowi6_family :: "ext \<Rightarrow> conn_tuple_t \<Rightarrow> conn_tuple_t" where
  "flowi6_family x t =
     (if is_ipv4_mapped_ipv6 x (saddr_h t) (saddr_l t) (daddr_h t) (daddr_l t)
      then t\<lparr>metadata := metadata t OR CONN_V4 x,
             saddr_h := 0,
             daddr_h := 0,
             saddr_l := ucast (ucast (drop_bit 32 (saddr_l t)) :: u32),
             daddr_l := ucast (ucast (drop_bit 32 (daddr_l t)) :: u32)\<rparr>
      else t\<lparr>metadata := metadata t OR CONN_V6 x\<rparr>)"

text \<open>Lines 89-96.\<close>

definition flowi6_ports :: "ext \<Rightarrow> conn_tuple_t \<Rightarrow> flowi6 \<Rightarrow> conn_tuple_t" where
  "flowi6_ports x t0 fl6 =
     (let t = (if sport t0 = 0 then t0\<lparr>sport := bpf_ntohs x (fl6_sport fl6)\<rparr> else t0);
          t = (if dport t = 0 then t\<lparr>dport := bpf_ntohs x (fl6_dport fl6)\<rparr> else t)
      in t)"

text \<open>\<^verbatim>\<open>read_conn_tuple_partial_from_flowi6\<close> (lines 56-105).\<close>

definition read_conn_tuple_partial_from_flowi6 ::
  "ext \<Rightarrow> conn_tuple_t \<Rightarrow> flowi6 \<Rightarrow> u64 \<Rightarrow> u32 \<Rightarrow> int \<times> conn_tuple_t" where
  "read_conn_tuple_partial_from_flowi6 x t0 fl6 pid_tgid type =
     (let t = t0\<lparr>pid := ucast (drop_bit 32 pid_tgid), metadata := type\<rparr>;
          t = flowi6_addrs t fl6
      in if \<not> (saddr_h t \<noteq> 0 \<or> saddr_l t \<noteq> 0) then (0, t)
         else if \<not> (daddr_h t \<noteq> 0 \<or> daddr_l t \<noteq> 0) then (0, t)
         else
           let t = flowi6_family x t;
               t = flowi6_ports x t fl6
           in if sport t = 0 \<or> dport t = 0 then (0, t) else (1, t))"

section \<open>The handlers\<close>

text \<open>
  A handler takes its arguments, the value of \<^verbatim>\<open>bpf_get_current_pid_tgid()\<close> and the
  state, and gives its return value with the state it leaves. \<^verbatim>\<open>int\<close> arguments that
  are only compared with zero and passed on (\<^verbatim>\<open>sent\<close>, \<^verbatim>\<open>copied\<close>, \<^verbatim>\<open>rc\<close>) are integers;
  \<^verbatim>\<open>log_debug\<close> writes a trace line in debug builds and is left out. A recorded call
  is taken to leave the tuple it is handed as it was.
\<close>

text \<open>\<^verbatim>\<open>fexit/tcp_sendmsg\<close> (lines 107-129).\<close>

definition tcp_sendmsg_exit :: "ext \<Rightarrow> sock_ptr \<Rightarrow> int \<Rightarrow> u64 \<Rightarrow> state \<Rightarrow> int \<times> state" where
  "tcp_sendmsg_exit x sk sent pid_tgid s =
     (if sent < 0 then (0, s)
      else
        let (r, t) = read_conn_tuple x conn_tuple_zero sk pid_tgid (CONN_TYPE_TCP x);
            s = do_call (Read_conn_tuple sk pid_tgid (CONN_TYPE_TCP x)) s
        in if r = 0 then (0, s)
           else
             let s = do_call (Handle_tcp_stats t sk 0) s;
                 (packets_in, packets_out) = get_tcp_segment_counts x sk;
                 s = do_call (Get_tcp_segment_counts sk) s;
                 c = Handle_message t sent 0 CONN_DIRECTION_UNKNOWN packets_out packets_in
                       PACKET_COUNT_ABSOLUTE sk
             in (call_ret x c, do_call c s))"

text \<open>\<^verbatim>\<open>fexit/tcp_recvmsg\<close> (lines 131-139).\<close>

definition tcp_recvmsg_exit :: "ext \<Rightarrow> sock_ptr \<Rightarrow> int \<Rightarrow> u64 \<Rightarrow> state \<Rightarrow> int \<times> state" where
  "tcp_recvmsg_exit x sk copied pid_tgid s =
     (if copied < 0 then (0, s)
      else
        let c = Handle_tcp_recv pid_tgid sk copied
        in (call_ret x c, do_call c s))"


text \<open>\<^verbatim>\<open>handle_udp_send\<close> (lines 168-182).\<close>

definition handle_udp_send :: "sock_ptr \<Rightarrow> int \<Rightarrow> u64 \<Rightarrow> state \<Rightarrow> int \<times> state" where
  "handle_udp_send sk sent pid_tgid s =
     (case bpf_map_lookup_elem (udp_send_skb_args s) pid_tgid of
        None \<Rightarrow> (0, s)
      | Some t \<Rightarrow>
          let s = (if sent > 0
                   then do_call (Handle_message t sent 0 CONN_DIRECTION_UNKNOWN 1 0
                                PACKET_COUNT_NONE sk) s
                   else s);
              s = s\<lparr>udp_send_skb_args := bpf_map_delete_elem (udp_send_skb_args s) pid_tgid\<rparr>
          in (0, s))"

text \<open>
  \<^verbatim>\<open>kprobe/udp_v6_send_skb\<close> (lines 184-202). \<open>sk\<close> is \<^verbatim>\<open>BPF_CORE_READ(skb, sk)\<close>; the
  tuple is declared without an initializer, so \<open>t_uninit\<close> is whatever the stack holds.
  The second resolver runs only when the first returned 0, on the tuple the first left.
\<close>

definition kprobe__udp_v6_send_skb ::
  "ext \<Rightarrow> conn_tuple_t \<Rightarrow> sock_ptr \<Rightarrow> flowi6 \<Rightarrow> u64 \<Rightarrow> state \<Rightarrow> int \<times> state" where
  "kprobe__udp_v6_send_skb x t_uninit sk fl6 pid_tgid s =
     (let (r, t) = read_conn_tuple x t_uninit sk pid_tgid (CONN_TYPE_UDP x);
          s = do_call (Read_conn_tuple sk pid_tgid (CONN_TYPE_UDP x)) s;
          (r, t) = (if r = 0
                    then read_conn_tuple_partial_from_flowi6 x t fl6 pid_tgid (CONN_TYPE_UDP x)
                    else (r, t))
      in if r = 0 then (0, increment_telemetry_count_udp_send_missed s)
         else (0, s\<lparr>udp_send_skb_args := bpf_map_update_elem (udp_send_skb_args s) pid_tgid t\<rparr>))"

text \<open>\<^verbatim>\<open>fexit/udpv6_sendmsg\<close> (lines 204-207).\<close>

definition udpv6_sendmsg_exit :: "sock_ptr \<Rightarrow> int \<Rightarrow> u64 \<Rightarrow> state \<Rightarrow> int \<times> state" where
  "udpv6_sendmsg_exit sk sent pid_tgid s = handle_udp_send sk sent pid_tgid s"

text \<open>\<^verbatim>\<open>kprobe/udp_send_skb\<close> (lines 209-227).\<close>

definition kprobe__udp_send_skb ::
  "ext \<Rightarrow> conn_tuple_t \<Rightarrow> sock_ptr \<Rightarrow> flowi4 \<Rightarrow> u64 \<Rightarrow> state \<Rightarrow> int \<times> state" where
  "kprobe__udp_send_skb x t_uninit sk fl4 pid_tgid s =
     (let (r, t) = read_conn_tuple x t_uninit sk pid_tgid (CONN_TYPE_UDP x);
          s = do_call (Read_conn_tuple sk pid_tgid (CONN_TYPE_UDP x)) s;
          (r, t) = (if r = 0
                    then read_conn_tuple_partial_from_flowi4 x t fl4 pid_tgid (CONN_TYPE_UDP x)
                    else (r, t))
      in if r = 0 then (0, increment_telemetry_count_udp_send_missed s)
         else (0, s\<lparr>udp_send_skb_args := bpf_map_update_elem (udp_send_skb_args s) pid_tgid t\<rparr>))"

text \<open>\<^verbatim>\<open>fexit/udp_sendmsg\<close> (lines 229-232).\<close>

definition udp_sendmsg_exit :: "sock_ptr \<Rightarrow> int \<Rightarrow> u64 \<Rightarrow> state \<Rightarrow> int \<times> state" where
  "udp_sendmsg_exit sk sent pid_tgid s = handle_udp_send sk sent pid_tgid s"

text \<open>
  \<^verbatim>\<open>handle_ret_udp_recvmsg\<close> (lines 234-264). \<^verbatim>\<open>msg\<close> is \<open>None\<close> when NULL;
  \<^verbatim>\<open>sockaddr_to_addr\<close> may write \<^verbatim>\<open>daddr_h\<close>, \<^verbatim>\<open>daddr_l\<close>, \<^verbatim>\<open>dport\<close> and \<^verbatim>\<open>metadata\<close>.
\<close>

definition handle_ret_udp_recvmsg ::
  "ext \<Rightarrow> sock_ptr \<Rightarrow> msghdr option \<Rightarrow> int \<Rightarrow> u32 \<Rightarrow> u64 \<Rightarrow> state \<Rightarrow> int \<times> state" where
  "handle_ret_udp_recvmsg x sk msg copied flags pid_tgid s =
     (if copied < 0 then (0, s)
      else if flags AND MSG_PEEK \<noteq> 0 then (0, s)
      else
        let t = conn_tuple_zero;
            (t, s) = (case msg of
                        None \<Rightarrow> (t, s)
                      | Some m \<Rightarrow>
                          if msg_name m \<noteq> 0
                          then
                            let (h, l, p, md) = sockaddr_to_addr x (msg_name m)
                                                  (daddr_h t, daddr_l t, dport t, metadata t)
                            in (t\<lparr>daddr_h := h, daddr_l := l, dport := p, metadata := md\<rparr>,
                                do_call (Sockaddr_to_addr (msg_name m)) s)
                          else (t, s));
            (r, t) = read_conn_tuple_partial x t sk pid_tgid (CONN_TYPE_UDP x);
            s = do_call (Read_conn_tuple_partial sk pid_tgid (CONN_TYPE_UDP x)) s
        in if r = 0 then (0, s)
           else (0, do_call (Handle_message t 0 copied CONN_DIRECTION_UNKNOWN 0 1
                            PACKET_COUNT_NONE sk) s))"

text \<open>\<^verbatim>\<open>fexit/udp_recvmsg\<close> and \<^verbatim>\<open>fexit/udpv6_recvmsg\<close> (lines 266-278).\<close>

definition udp_recvmsg_exit ::
  "ext \<Rightarrow> sock_ptr \<Rightarrow> msghdr option \<Rightarrow> u32 \<Rightarrow> int \<Rightarrow> u64 \<Rightarrow> state \<Rightarrow> int \<times> state" where
  "udp_recvmsg_exit x sk msg flags copied pid_tgid s =
     handle_ret_udp_recvmsg x sk msg copied flags pid_tgid s"

definition udpv6_recvmsg_exit ::
  "ext \<Rightarrow> sock_ptr \<Rightarrow> msghdr option \<Rightarrow> u32 \<Rightarrow> int \<Rightarrow> u64 \<Rightarrow> state \<Rightarrow> int \<times> state" where
  "udpv6_recvmsg_exit x sk msg flags copied pid_tgid s =
     handle_ret_udp_recvmsg x sk msg copied flags pid_tgid s"

text \<open>\<^verbatim>\<open>fentry/tcp_connect\<close> (lines 305-313).\<close>

definition tcp_connect :: "sock_ptr \<Rightarrow> u64 \<Rightarrow> state \<Rightarrow> int \<times> state" where
  "tcp_connect sk pid_tgid s =
     (0, s\<lparr>tcp_ongoing_connect_pid :=
             bpf_map_update_with_telemetry (tcp_ongoing_connect_pid s) sk pid_tgid\<rparr>)"

text \<open>
  \<^verbatim>\<open>sys_exit_bind\<close> (lines 420-459). \<^verbatim>\<open>addr\<close> is \<open>None\<close> when NULL; a family that is
  neither \<^verbatim>\<open>AF_INET\<close> nor \<^verbatim>\<open>AF_INET6\<close> leaves \<^verbatim>\<open>sin_port\<close> at its initial 0.
\<close>

definition sys_exit_bind ::
  "ext \<Rightarrow> socket \<Rightarrow> sockaddr option \<Rightarrow> int \<Rightarrow> state \<Rightarrow> int \<times> state" where
  "sys_exit_bind x sock addr rc s =
     (if rc \<noteq> 0 then (0, s)
      else if so_type sock AND SOCK_DGRAM = 0 then (0, s)
      else
        case addr of
          None \<Rightarrow> (0, s)
        | Some a \<Rightarrow>
            let port = (if sa_family a = AF_INET then sin_port a
                        else if sa_family a = AF_INET6 then sin6_port a
                        else 0);
                port = bpf_ntohs x port;
                (port, s) = (if port = 0
                             then (read_sport x (so_sk sock), do_call (Read_sport (so_sk sock)) s)
                             else (port, s))
            in if port = 0 then (0, s)
               else (0, do_call (Add_port_bind \<lparr>pb_netns = 0, pb_port = port\<rparr> Udp_port_bindings) s))"

text \<open>\<^verbatim>\<open>fexit/inet_bind\<close> and \<^verbatim>\<open>fexit/inet6_bind\<close> (lines 461-471).\<close>

definition inet_bind_exit ::
  "ext \<Rightarrow> socket \<Rightarrow> sockaddr option \<Rightarrow> int \<Rightarrow> state \<Rightarrow> int \<times> state" where
  "inet_bind_exit x sock uaddr rc s = sys_exit_bind x sock uaddr rc s"

definition inet6_bind_exit ::
  "ext \<Rightarrow> socket \<Rightarrow> sockaddr option \<Rightarrow> int \<Rightarrow> state \<Rightarrow> int \<times> state" where
  "inet6_bind_exit x sock uaddr rc s = sys_exit_bind x sock uaddr rc s"

text \<open>
  \<^verbatim>\<open>fexit/sockfd_lookup_light\<close> (lines 476-518). \<^verbatim>\<open>.fd = fd\<close> keeps the 32 bits of the
  descriptor.
\<close>

definition sockfd_lookup_light_exit :: "u32 \<Rightarrow> socket \<Rightarrow> u64 \<Rightarrow> state \<Rightarrow> int \<times> state" where
  "sockfd_lookup_light_exit fd socket pid_tgid s =
     (let key = \<lparr>pf_pid = ucast (drop_bit 32 pid_tgid), pf_fd = fd\<rparr>
      in case bpf_map_lookup_elem (sock_by_pid_fd s) key of
           Some skp \<Rightarrow> (0, s)
         | None \<Rightarrow>
             (case so_ops socket of
                None \<Rightarrow> (0, s)
              | Some proto_ops \<Rightarrow>
                  let sock_type = so_type socket;
                      family = po_family proto_ops
                  in if sock_type \<noteq> SOCK_STREAM \<or> \<not> (family = AF_INET \<or> family = AF_INET6)
                     then (0, s)
                     else
                       let sock = so_sk socket;
                           pid_fd = \<lparr>pf_pid = ucast (drop_bit 32 pid_tgid), pf_fd = fd\<rparr>;
                           s = s\<lparr>pid_fd_by_sock :=
                                   bpf_map_update_with_telemetry (pid_fd_by_sock s) sock pid_fd\<rparr>;
                           s = s\<lparr>sock_by_pid_fd :=
                                   bpf_map_update_with_telemetry (sock_by_pid_fd s) pid_fd sock\<rparr>
                       in (0, s)))"

section \<open>Notions used in the statements\<close>

text \<open>
  The value a field holds after its fallback read: the source, where the field was
  zero (\<^verbatim>\<open>if (t->f == 0) { t->f = src; }\<close>).
\<close>

definition filled :: "'a::zero \<Rightarrow> 'a \<Rightarrow> 'a" where
  "filled cur src = (if cur = 0 then src else cur)"

text \<open>
  The two halves of an address of the tuple after the fallback read of lines 60-67:
  those of the flow's address, where either half of the tuple's was zero.
\<close>

definition filled6 :: "u64 \<Rightarrow> u64 \<Rightarrow> in6_addr \<Rightarrow> u64 \<times> u64" where
  "filled6 h l a = (if l = 0 \<or> h = 0 then (in6_h a, in6_l a) else (h, l))"

text \<open>
  After the fallback reads, neither address of the tuple is zero (lines 69-76: an
  IPv6 address is zero when both its halves are).
\<close>

definition addrs_set6 :: "conn_tuple_t \<Rightarrow> flowi6 \<Rightarrow> bool" where
  "addrs_set6 t fl6 \<longleftrightarrow>
     filled6 (saddr_h t) (saddr_l t) (fl6_saddr fl6) \<noteq> (0, 0) \<and>
     filled6 (daddr_h t) (daddr_l t) (fl6_daddr fl6) \<noteq> (0, 0)"

text \<open>
  The addresses the tuple holds after the fallback reads are set, and
  \<^verbatim>\<open>is_ipv4_mapped_ipv6\<close> accepts them: the condition under which line 79 takes the
  IPv4 branch.
\<close>

definition collapses6 :: "ext \<Rightarrow> conn_tuple_t \<Rightarrow> flowi6 \<Rightarrow> bool" where
  "collapses6 x t fl6 \<longleftrightarrow>
     addrs_set6 t fl6 \<and>
     is_ipv4_mapped_ipv6 x
       (fst (filled6 (saddr_h t) (saddr_l t) (fl6_saddr fl6)))
       (snd (filled6 (saddr_h t) (saddr_l t) (fl6_saddr fl6)))
       (fst (filled6 (daddr_h t) (daddr_l t) (fl6_daddr fl6)))
       (snd (filled6 (daddr_h t) (daddr_l t) (fl6_daddr fl6)))"

text \<open>
  A property \<^verbatim>\<open>is_ipv4_mapped_ipv6\<close> may or may not have: it accepts only pairs of
  addresses whose high halves are both zero (the spec: "both address halves are
  IPv4-mapped").
\<close>

definition mapped_high_zero :: "ext \<Rightarrow> bool" where
  "mapped_high_zero x \<longleftrightarrow> (\<forall>a b c d. is_ipv4_mapped_ipv6 x a b c d \<longrightarrow> a = 0 \<and> c = 0)"


subsection \<open>An instance of the parameters, for the closed examples\<close>

text \<open>
  Modelled from the spec: \<^verbatim>\<open>clear_sockfd_maps\<close> is a function of \<^verbatim>\<open>sockfd.h\<close>, which is
  not among the sources. The spec has the close path "clear descriptor index entries"
  of the socket, and line 513 says of the entries that they "are cleaned up by
  tcp_close": every descriptor that names the socket loses its entry, and the socket
  loses its own.
\<close>

definition clear_sockfd_maps_spec ::
  "sock_ptr \<Rightarrow> (pid_fd_t, sock_ptr) bpf_map \<times> (sock_ptr, pid_fd_t) bpf_map
     \<Rightarrow> (pid_fd_t, sock_ptr) bpf_map \<times> (sock_ptr, pid_fd_t) bpf_map" where
  "clear_sockfd_maps_spec sock m =
     ((fst m)\<lparr>entries := filter (\<lambda>e. snd e \<noteq> sock) (entries (fst m))\<rparr>,
      bpf_map_delete_elem (snd m) sock)"


text \<open>
  Modelled from the spec: \<^verbatim>\<open>is_ipv4_mapped_ipv6\<close> is a function of \<^verbatim>\<open>ipv6.h\<close>, which is
  not among the sources. The spec collapses a tuple when "both" addresses are
  IPv4-mapped, that is \<^verbatim>\<open>::ffff:a.b.c.d\<close>: the first eight bytes are zero and the next
  four are \<^verbatim>\<open>00 00 ff ff\<close>, which a little-endian host reads as the low 32 bits
  \<^verbatim>\<open>0xFFFF0000\<close> of the low half; the IPv4 address is the upper 32 bits.
\<close>

definition is_ipv4_mapped_ipv6_le :: "u64 \<Rightarrow> u64 \<Rightarrow> u64 \<Rightarrow> u64 \<Rightarrow> bool" where
  "is_ipv4_mapped_ipv6_le sh sl dh dl \<longleftrightarrow>
     (sh = 0 \<and> (ucast sl :: u32) = 0xFFFF0000) \<and>
     (dh = 0 \<and> (ucast dl :: u32) = 0xFFFF0000)"

text \<open>\<^verbatim>\<open>bpf_ntohs\<close> on a little-endian host: the two bytes swapped.\<close>

definition bpf_ntohs_le :: "u16 \<Rightarrow> u16" where
  "bpf_ntohs_le p = push_bit 8 p OR drop_bit 8 p"

text \<open>
  A little-endian host on which no socket can be read: the resolvers from a socket
  return 0 and leave the tuple, \<^verbatim>\<open>read_sport\<close> gives 0. \<^verbatim>\<open>clear_sockfd_maps\<close> is the one
  modelled above. The examples override the fields they need.
\<close>

definition ext0 :: ext where
  "ext0 =
     \<lparr>bpf_ntohs = bpf_ntohs_le,
      is_ipv4_mapped_ipv6 = is_ipv4_mapped_ipv6_le,
      CONN_V4 = 0, CONN_V6 = 2, CONN_TYPE_TCP = 1, CONN_TYPE_UDP = 0,
      read_conn_tuple = (\<lambda>t sk pid_tgid type. (0, t)),
      read_conn_tuple_partial = (\<lambda>t sk pid_tgid type. (0, t)),
      sockaddr_to_addr = (\<lambda>a v. v),
      read_sport = (\<lambda>sk. 0),
      get_tcp_segment_counts = (\<lambda>sk. (0, 0)),
      call_ret = (\<lambda>c. 0),
      clear_sockfd_maps = clear_sockfd_maps_spec\<rparr>"

text \<open>The state with every map empty, each with room for 1024 entries.\<close>

definition state0 :: state where
  "state0 =
     \<lparr>udp_send_skb_args = \<lparr>max_entries = 1024, entries = []\<rparr>,
      tcp_ongoing_connect_pid = \<lparr>max_entries = 1024, entries = []\<rparr>,
      sock_by_pid_fd = \<lparr>max_entries = 1024, entries = []\<rparr>,
      pid_fd_by_sock = \<lparr>max_entries = 1024, entries = []\<rparr>,
      udp_send_missed = 0,
      calls = []\<rparr>"

text \<open>
  The port of the address supplied to bind, in host order: by family, 0 for a family
  that is neither \<^verbatim>\<open>AF_INET\<close> nor \<^verbatim>\<open>AF_INET6\<close> (lines 435-443).
\<close>

definition sockaddr_port :: "ext \<Rightarrow> sockaddr \<Rightarrow> u16" where
  "sockaddr_port x a =
     bpf_ntohs x (if sa_family a = AF_INET then sin_port a
                  else if sa_family a = AF_INET6 then sin6_port a
                  else 0)"

text \<open>A map can take an entry for a key: the key is present, or the map is not full.\<close>

definition has_room :: "('k, 'v) bpf_map \<Rightarrow> 'k \<Rightarrow> bool" where
  "has_room m k \<longleftrightarrow> k \<in> fst ` set (entries m) \<or> length (entries m) < max_entries m"

text \<open>A resolved tuple, a TCP stream socket at address 100, and a UDP socket.\<close>

definition tuple1 :: conn_tuple_t where
  "tuple1 =
     \<lparr>saddr_h = 0, saddr_l = 0x0100000A, daddr_h = 0, daddr_l = 0x0200000A,
      sport = 5000, dport = 80, netns = 0, pid = 100, metadata = 0\<rparr>"

definition stream_socket :: socket where
  "stream_socket = \<lparr>so_ops = Some \<lparr>po_family = AF_INET\<rparr>, so_type = SOCK_STREAM, so_sk = 100\<rparr>"

definition dgram_socket :: socket where
  "dgram_socket = \<lparr>so_ops = Some \<lparr>po_family = AF_INET\<rparr>, so_type = SOCK_DGRAM, so_sk = 200\<rparr>"

section \<open>The flow resolvers in closed form\<close>

lemma filled_idem: "filled (filled a b) b = filled a b"
  by (simp add: filled_def)

lemma filled6_idem:
  "filled6 (fst (filled6 h l a)) (snd (filled6 h l a)) a = filled6 h l a"
  by (simp add: filled6_def)

lemma filled6_zero_high: "filled6 0 l a = (in6_h a, in6_l a)"
  by (simp add: filled6_def)

lemma filled6_fst_zero: "fst (filled6 h l a) = 0 \<Longrightarrow> filled6 h l a = (in6_h a, in6_l a)"
  by (auto simp add: filled6_def split: if_splits)

lemma filled6_kept: "h \<noteq> 0 \<Longrightarrow> l \<noteq> 0 \<Longrightarrow> filled6 h l a = (h, l)"
  by (simp add: filled6_def)

lemma flowi4_addrs_eq:
  "flowi4_addrs t fl =
     t\<lparr>saddr_l := filled (saddr_l t) (ucast (fl4_saddr fl)),
       daddr_l := filled (daddr_l t) (ucast (fl4_daddr fl))\<rparr>"
  by (simp add: flowi4_addrs_def filled_def Let_def)

lemma flowi4_ports_eq:
  "flowi4_ports x t fl =
     t\<lparr>sport := filled (sport t) (bpf_ntohs x (fl4_sport fl)),
       dport := filled (dport t) (bpf_ntohs x (fl4_dport fl))\<rparr>"
  by (simp add: flowi4_ports_def filled_def Let_def)

lemma flowi6_ports_eq:
  "flowi6_ports x t fl =
     t\<lparr>sport := filled (sport t) (bpf_ntohs x (fl6_sport fl)),
       dport := filled (dport t) (bpf_ntohs x (fl6_dport fl))\<rparr>"
  by (simp add: flowi6_ports_def filled_def Let_def)

lemma flowi6_addrs_eq:
  "flowi6_addrs t fl =
     t\<lparr>saddr_h := fst (filled6 (saddr_h t) (saddr_l t) (fl6_saddr fl)),
       saddr_l := snd (filled6 (saddr_h t) (saddr_l t) (fl6_saddr fl)),
       daddr_h := fst (filled6 (daddr_h t) (daddr_l t) (fl6_daddr fl)),
       daddr_l := snd (filled6 (daddr_h t) (daddr_l t) (fl6_daddr fl))\<rparr>"
  by (simp add: flowi6_addrs_def filled6_def Let_def)

lemma flowi4_ret:
  "fst (read_conn_tuple_partial_from_flowi4 x t fl p ty) =
     (if filled (saddr_l t) (ucast (fl4_saddr fl)) = 0 \<or>
         filled (daddr_l t) (ucast (fl4_daddr fl)) = 0 \<or>
         filled (sport t) (bpf_ntohs x (fl4_sport fl)) = 0 \<or>
         filled (dport t) (bpf_ntohs x (fl4_dport fl)) = 0 then 0 else 1)"
  by (simp add: read_conn_tuple_partial_from_flowi4_def Let_def flowi4_addrs_eq flowi4_ports_eq)

lemma flowi4_tuple:
  "snd (read_conn_tuple_partial_from_flowi4 x t fl p ty) =
     t\<lparr>pid := ucast (drop_bit 32 p), metadata := ty,
       saddr_l := filled (saddr_l t) (ucast (fl4_saddr fl)),
       daddr_l := filled (daddr_l t) (ucast (fl4_daddr fl)),
       sport := (if filled (saddr_l t) (ucast (fl4_saddr fl)) = 0 \<or>
                    filled (daddr_l t) (ucast (fl4_daddr fl)) = 0
                 then sport t else filled (sport t) (bpf_ntohs x (fl4_sport fl))),
       dport := (if filled (saddr_l t) (ucast (fl4_saddr fl)) = 0 \<or>
                    filled (daddr_l t) (ucast (fl4_daddr fl)) = 0
                 then dport t else filled (dport t) (bpf_ntohs x (fl4_dport fl)))\<rparr>"
  by (simp add: read_conn_tuple_partial_from_flowi4_def Let_def flowi4_addrs_eq flowi4_ports_eq)

lemma flowi4_again:
  "read_conn_tuple_partial_from_flowi4 x
       (snd (read_conn_tuple_partial_from_flowi4 x t fl p ty)) fl p ty
     = read_conn_tuple_partial_from_flowi4 x t fl p ty"
  by (simp add: prod_eq_iff flowi4_ret flowi4_tuple filled_idem)

lemma flowi6_ret:
  "fst (read_conn_tuple_partial_from_flowi6 x t fl p ty) =
     (if filled6 (saddr_h t) (saddr_l t) (fl6_saddr fl) = (0, 0) \<or>
         filled6 (daddr_h t) (daddr_l t) (fl6_daddr fl) = (0, 0) \<or>
         filled (sport t) (bpf_ntohs x (fl6_sport fl)) = 0 \<or>
         filled (dport t) (bpf_ntohs x (fl6_dport fl)) = 0 then 0 else 1)"
  by (simp add: read_conn_tuple_partial_from_flowi6_def Let_def flowi6_addrs_eq flowi6_ports_eq
      flowi6_family_def prod_eq_iff)

lemma flowi6_tuple:
  "snd (read_conn_tuple_partial_from_flowi6 x t fl p ty) =
     t\<lparr>pid := ucast (drop_bit 32 p),
       metadata := (if \<not> addrs_set6 t fl then ty
                    else if collapses6 x t fl then ty OR CONN_V4 x else ty OR CONN_V6 x),
       saddr_h := (if collapses6 x t fl then 0
                   else fst (filled6 (saddr_h t) (saddr_l t) (fl6_saddr fl))),
       saddr_l := (if collapses6 x t fl
                   then ucast (ucast (drop_bit 32
                          (snd (filled6 (saddr_h t) (saddr_l t) (fl6_saddr fl)))) :: u32)
                   else snd (filled6 (saddr_h t) (saddr_l t) (fl6_saddr fl))),
       daddr_h := (if collapses6 x t fl then 0
                   else fst (filled6 (daddr_h t) (daddr_l t) (fl6_daddr fl))),
       daddr_l := (if collapses6 x t fl
                   then ucast (ucast (drop_bit 32
                          (snd (filled6 (daddr_h t) (daddr_l t) (fl6_daddr fl)))) :: u32)
                   else snd (filled6 (daddr_h t) (daddr_l t) (fl6_daddr fl))),
       sport := (if addrs_set6 t fl then filled (sport t) (bpf_ntohs x (fl6_sport fl))
                 else sport t),
       dport := (if addrs_set6 t fl then filled (dport t) (bpf_ntohs x (fl6_dport fl))
                 else dport t)\<rparr>"
  by (simp add: read_conn_tuple_partial_from_flowi6_def Let_def flowi6_addrs_eq flowi6_ports_eq
      flowi6_family_def addrs_set6_def collapses6_def prod_eq_iff)

lemma collapses6_from_flow:
  "mapped_high_zero x \<Longrightarrow> collapses6 x t fl \<Longrightarrow>
     filled6 (saddr_h t) (saddr_l t) (fl6_saddr fl)
       = (in6_h (fl6_saddr fl), in6_l (fl6_saddr fl)) \<and>
     filled6 (daddr_h t) (daddr_l t) (fl6_daddr fl)
       = (in6_h (fl6_daddr fl), in6_l (fl6_daddr fl))"
  by (auto simp add: collapses6_def mapped_high_zero_def dest!: filled6_fst_zero)

lemma flowi6_again_src:
  assumes "mapped_high_zero x"
  shows "filled6 (saddr_h (snd (read_conn_tuple_partial_from_flowi6 x t fl p ty)))
                 (saddr_l (snd (read_conn_tuple_partial_from_flowi6 x t fl p ty))) (fl6_saddr fl)
         = filled6 (saddr_h t) (saddr_l t) (fl6_saddr fl)"
  using collapses6_from_flow [OF assms, of t fl]
  by (simp add: flowi6_tuple filled6_idem filled6_zero_high)

lemma flowi6_again_dst:
  assumes "mapped_high_zero x"
  shows "filled6 (daddr_h (snd (read_conn_tuple_partial_from_flowi6 x t fl p ty)))
                 (daddr_l (snd (read_conn_tuple_partial_from_flowi6 x t fl p ty))) (fl6_daddr fl)
         = filled6 (daddr_h t) (daddr_l t) (fl6_daddr fl)"
  using collapses6_from_flow [OF assms, of t fl]
  by (simp add: flowi6_tuple filled6_idem filled6_zero_high)

lemma flowi6_again_addrs_set:
  assumes "mapped_high_zero x"
  shows "addrs_set6 (snd (read_conn_tuple_partial_from_flowi6 x t fl p ty)) fl = addrs_set6 t fl"
  by (simp only: addrs_set6_def flowi6_again_src [OF assms] flowi6_again_dst [OF assms])

lemma flowi6_again_collapses:
  assumes "mapped_high_zero x"
  shows "collapses6 x (snd (read_conn_tuple_partial_from_flowi6 x t fl p ty)) fl
         = collapses6 x t fl"
  by (simp only: collapses6_def addrs_set6_def flowi6_again_src [OF assms]
      flowi6_again_dst [OF assms])

lemma flowi6_again_sport:
  "filled (sport (snd (read_conn_tuple_partial_from_flowi6 x t fl p ty)))
          (bpf_ntohs x (fl6_sport fl))
     = filled (sport t) (bpf_ntohs x (fl6_sport fl))"
  by (simp add: flowi6_tuple filled_idem)

lemma flowi6_again_dport:
  "filled (dport (snd (read_conn_tuple_partial_from_flowi6 x t fl p ty)))
          (bpf_ntohs x (fl6_dport fl))
     = filled (dport t) (bpf_ntohs x (fl6_dport fl))"
  by (simp add: flowi6_tuple filled_idem)

lemma flowi6_again:
  assumes "mapped_high_zero x"
  shows "read_conn_tuple_partial_from_flowi6 x
           (snd (read_conn_tuple_partial_from_flowi6 x t fl p ty)) fl p ty
         = read_conn_tuple_partial_from_flowi6 x t fl p ty"
proof -
  let ?t' = "snd (read_conn_tuple_partial_from_flowi6 x t fl p ty)"
  have r: "fst (read_conn_tuple_partial_from_flowi6 x ?t' fl p ty)
      = fst (read_conn_tuple_partial_from_flowi6 x t fl p ty)"
    by (simp only: flowi6_ret [of x ?t'] flowi6_again_src [OF assms] flowi6_again_dst [OF assms]
          flowi6_again_sport flowi6_again_dport)
       (simp only: flowi6_ret [of x t])
  have "snd (read_conn_tuple_partial_from_flowi6 x ?t' fl p ty) = ?t'"
    apply (subst flowi6_tuple [of x ?t'])
    apply (simp only: flowi6_again_addrs_set [OF assms] flowi6_again_collapses [OF assms]
        flowi6_again_src [OF assms] flowi6_again_dst [OF assms]
        flowi6_again_sport flowi6_again_dport)
    apply (simp add: flowi6_tuple)
    done
  with r show ?thesis by (simp add: prod_eq_iff)
qed

lemma mapped_high_zero_ext0: "mapped_high_zero ext0"
  by (simp add: mapped_high_zero_def ext0_def is_ipv4_mapped_ipv6_le_def)

section \<open>Claims about the flow resolvers\<close>

text \<open>
  C1, as stated, fails: the claim has every nonzero field of the tuple left unchanged,
  and both resolvers begin by assigning \<^verbatim>\<open>pid\<close> and \<^verbatim>\<open>metadata\<close> (lines 24-25, 57-58).
  A tuple with \<^verbatim>\<open>pid = 7\<close> resolved for the thread identity \<^verbatim>\<open>0x900000000\<close> comes back
  with \<^verbatim>\<open>pid = 9\<close>.
\<close>

theorem flow_merge_pid_overwritten:
  "pid (conn_tuple_zero\<lparr>pid := 7\<rparr>) = 7 \<and>
   pid (snd (read_conn_tuple_partial_from_flowi4 ext0 (conn_tuple_zero\<lparr>pid := 7\<rparr>)
          \<lparr>fl4_saddr = 1, fl4_daddr = 2, fl4_sport = 3, fl4_dport = 4\<rparr> 0x900000000 0)) = 9"
  by (simp add: flowi4_tuple conn_tuple_zero_def drop_bit_eq_div)

text \<open>
  C1, amended. Both resolvers set \<^verbatim>\<open>pid\<close> to the upper half of \<^verbatim>\<open>pid_tgid\<close> and
  \<^verbatim>\<open>metadata\<close> to \<^verbatim>\<open>type\<close> (the IPv6 one with the family bit it adds), whatever the
  tuple held. The IPv4 resolver
  leaves a nonzero \<^verbatim>\<open>saddr_l\<close>, \<^verbatim>\<open>daddr_l\<close>, \<^verbatim>\<open>sport\<close> or \<^verbatim>\<open>dport\<close> unchanged, never
  touches \<^verbatim>\<open>saddr_h\<close>, \<^verbatim>\<open>daddr_h\<close> and \<^verbatim>\<open>netns\<close>, and fills a zero address from the flow.
  The IPv6 resolver leaves a nonzero port and \<^verbatim>\<open>netns\<close> unchanged, and leaves an
  address whose two halves are both nonzero unchanged unless line 79 takes the IPv4
  branch. Resolving the result of the IPv4 resolver again, with the same arguments,
  gives the same return value and the same tuple; so does the IPv6 resolver when
  \<^verbatim>\<open>is_ipv4_mapped_ipv6\<close> accepts only addresses whose high halves are zero.
\<close>

theorem flow_merge_keeps_set_fields:
  "pid (snd (read_conn_tuple_partial_from_flowi4 x t fl4 pid_tgid type)) = ucast (drop_bit 32 pid_tgid) \<and>
   metadata (snd (read_conn_tuple_partial_from_flowi4 x t fl4 pid_tgid type)) = type \<and>
   pid (snd (read_conn_tuple_partial_from_flowi6 x t fl6 pid_tgid type)) = ucast (drop_bit 32 pid_tgid) \<and>
   metadata (snd (read_conn_tuple_partial_from_flowi6 x t fl6 pid_tgid type))
     = (if collapses6 x t fl6 then type OR CONN_V4 x
        else if addrs_set6 t fl6 then type OR CONN_V6 x else type) \<and>
   (saddr_l t \<noteq> 0 \<longrightarrow> saddr_l (snd (read_conn_tuple_partial_from_flowi4 x t fl4 pid_tgid type)) = saddr_l t) \<and>
   (daddr_l t \<noteq> 0 \<longrightarrow> daddr_l (snd (read_conn_tuple_partial_from_flowi4 x t fl4 pid_tgid type)) = daddr_l t) \<and>
   (sport t \<noteq> 0 \<longrightarrow> sport (snd (read_conn_tuple_partial_from_flowi4 x t fl4 pid_tgid type)) = sport t) \<and>
   (dport t \<noteq> 0 \<longrightarrow> dport (snd (read_conn_tuple_partial_from_flowi4 x t fl4 pid_tgid type)) = dport t) \<and>
   saddr_h (snd (read_conn_tuple_partial_from_flowi4 x t fl4 pid_tgid type)) = saddr_h t \<and>
   daddr_h (snd (read_conn_tuple_partial_from_flowi4 x t fl4 pid_tgid type)) = daddr_h t \<and>
   netns (snd (read_conn_tuple_partial_from_flowi4 x t fl4 pid_tgid type)) = netns t \<and>
   (saddr_l t = 0 \<longrightarrow> saddr_l (snd (read_conn_tuple_partial_from_flowi4 x t fl4 pid_tgid type)) = ucast (fl4_saddr fl4)) \<and>
   (daddr_l t = 0 \<longrightarrow> daddr_l (snd (read_conn_tuple_partial_from_flowi4 x t fl4 pid_tgid type)) = ucast (fl4_daddr fl4)) \<and>
   (sport t \<noteq> 0 \<longrightarrow> sport (snd (read_conn_tuple_partial_from_flowi6 x t fl6 pid_tgid type)) = sport t) \<and>
   (dport t \<noteq> 0 \<longrightarrow> dport (snd (read_conn_tuple_partial_from_flowi6 x t fl6 pid_tgid type)) = dport t) \<and>
   netns (snd (read_conn_tuple_partial_from_flowi6 x t fl6 pid_tgid type)) = netns t \<and>
   (saddr_h t \<noteq> 0 \<and> saddr_l t \<noteq> 0 \<and> \<not> collapses6 x t fl6 \<longrightarrow>
      saddr_h (snd (read_conn_tuple_partial_from_flowi6 x t fl6 pid_tgid type)) = saddr_h t \<and>
      saddr_l (snd (read_conn_tuple_partial_from_flowi6 x t fl6 pid_tgid type)) = saddr_l t) \<and>
   (daddr_h t \<noteq> 0 \<and> daddr_l t \<noteq> 0 \<and> \<not> collapses6 x t fl6 \<longrightarrow>
      daddr_h (snd (read_conn_tuple_partial_from_flowi6 x t fl6 pid_tgid type)) = daddr_h t \<and>
      daddr_l (snd (read_conn_tuple_partial_from_flowi6 x t fl6 pid_tgid type)) = daddr_l t) \<and>
   read_conn_tuple_partial_from_flowi4 x
       (snd (read_conn_tuple_partial_from_flowi4 x t fl4 pid_tgid type)) fl4 pid_tgid type
     = read_conn_tuple_partial_from_flowi4 x t fl4 pid_tgid type \<and>
   (mapped_high_zero x \<longrightarrow>
      read_conn_tuple_partial_from_flowi6 x
          (snd (read_conn_tuple_partial_from_flowi6 x t fl6 pid_tgid type)) fl6 pid_tgid type
        = read_conn_tuple_partial_from_flowi6 x t fl6 pid_tgid type)"
proof -
  let ?t4 = "snd (read_conn_tuple_partial_from_flowi4 x t fl4 pid_tgid type)"
  let ?t6 = "snd (read_conn_tuple_partial_from_flowi6 x t fl6 pid_tgid type)"
  have a: "pid ?t4 = ucast (drop_bit 32 pid_tgid)" "metadata ?t4 = type"
      "saddr_h ?t4 = saddr_h t" "daddr_h ?t4 = daddr_h t" "netns ?t4 = netns t"
    by (simp_all add: flowi4_tuple)
  have b: "saddr_l t \<noteq> 0 \<longrightarrow> saddr_l ?t4 = saddr_l t"
      "daddr_l t \<noteq> 0 \<longrightarrow> daddr_l ?t4 = daddr_l t"
      "sport t \<noteq> 0 \<longrightarrow> sport ?t4 = sport t"
      "dport t \<noteq> 0 \<longrightarrow> dport ?t4 = dport t"
      "saddr_l t = 0 \<longrightarrow> saddr_l ?t4 = ucast (fl4_saddr fl4)"
      "daddr_l t = 0 \<longrightarrow> daddr_l ?t4 = ucast (fl4_daddr fl4)"
    by (simp_all add: flowi4_tuple filled_def)
  have c: "pid ?t6 = ucast (drop_bit 32 pid_tgid)" "netns ?t6 = netns t"
      "sport t \<noteq> 0 \<longrightarrow> sport ?t6 = sport t"
      "dport t \<noteq> 0 \<longrightarrow> dport ?t6 = dport t"
    by (simp_all add: flowi6_tuple filled_def)
  have m: "metadata ?t6 = (if collapses6 x t fl6 then type OR CONN_V4 x
        else if addrs_set6 t fl6 then type OR CONN_V6 x else type)"
    by (simp add: flowi6_tuple collapses6_def)
  have d: "saddr_h t \<noteq> 0 \<and> saddr_l t \<noteq> 0 \<and> \<not> collapses6 x t fl6 \<longrightarrow>
        saddr_h ?t6 = saddr_h t \<and> saddr_l ?t6 = saddr_l t"
      "daddr_h t \<noteq> 0 \<and> daddr_l t \<noteq> 0 \<and> \<not> collapses6 x t fl6 \<longrightarrow>
        daddr_h ?t6 = daddr_h t \<and> daddr_l ?t6 = daddr_l t"
    by (simp_all add: flowi6_tuple filled6_kept)
  show ?thesis
    using a b c d m flowi4_again [of x t fl4 pid_tgid type]
      flowi6_again [of x t fl6 pid_tgid type]
    by blast
qed

theorem flow_merge_keeps_set_fields_witness:
  "saddr_l (snd (read_conn_tuple_partial_from_flowi4 ext0
       (conn_tuple_zero\<lparr>saddr_h := 1, saddr_l := 5, sport := 80\<rparr>)
       \<lparr>fl4_saddr = 1, fl4_daddr = 2, fl4_sport = 3, fl4_dport = 4\<rparr> 0x900000000 0)) = 5 \<and>
   sport (snd (read_conn_tuple_partial_from_flowi4 ext0
       (conn_tuple_zero\<lparr>saddr_h := 1, saddr_l := 5, sport := 80\<rparr>)
       \<lparr>fl4_saddr = 1, fl4_daddr = 2, fl4_sport = 3, fl4_dport = 4\<rparr> 0x900000000 0)) = 80 \<and>
   daddr_l (snd (read_conn_tuple_partial_from_flowi4 ext0
       (conn_tuple_zero\<lparr>saddr_h := 1, saddr_l := 5, sport := 80\<rparr>)
       \<lparr>fl4_saddr = 1, fl4_daddr = 2, fl4_sport = 3, fl4_dport = 4\<rparr> 0x900000000 0)) = 2 \<and>
   saddr_h (snd (read_conn_tuple_partial_from_flowi6 ext0
       (conn_tuple_zero\<lparr>saddr_h := 1, saddr_l := 5, sport := 80\<rparr>)
       \<lparr>fl6_saddr = \<lparr>in6_h = 0, in6_l = 0x0100000AFFFF0000\<rparr>,
        fl6_daddr = \<lparr>in6_h = 0, in6_l = 0x0200000AFFFF0000\<rparr>,
        fl6_sport = 3, fl6_dport = 4\<rparr> 0x900000000 0)) = 1 \<and>
   saddr_l (snd (read_conn_tuple_partial_from_flowi6 ext0
       (conn_tuple_zero\<lparr>saddr_h := 1, saddr_l := 5, sport := 80\<rparr>)
       \<lparr>fl6_saddr = \<lparr>in6_h = 0, in6_l = 0x0100000AFFFF0000\<rparr>,
        fl6_daddr = \<lparr>in6_h = 0, in6_l = 0x0200000AFFFF0000\<rparr>,
        fl6_sport = 3, fl6_dport = 4\<rparr> 0x900000000 0)) = 5 \<and>
   sport (snd (read_conn_tuple_partial_from_flowi6 ext0
       (conn_tuple_zero\<lparr>saddr_h := 1, saddr_l := 5, sport := 80\<rparr>)
       \<lparr>fl6_saddr = \<lparr>in6_h = 0, in6_l = 0x0100000AFFFF0000\<rparr>,
        fl6_daddr = \<lparr>in6_h = 0, in6_l = 0x0200000AFFFF0000\<rparr>,
        fl6_sport = 3, fl6_dport = 4\<rparr> 0x900000000 0)) = 80 \<and>
   read_conn_tuple_partial_from_flowi6 ext0
     (snd (read_conn_tuple_partial_from_flowi6 ext0
       (conn_tuple_zero\<lparr>saddr_h := 1, saddr_l := 5, sport := 80\<rparr>)
       \<lparr>fl6_saddr = \<lparr>in6_h = 0, in6_l = 0x0100000AFFFF0000\<rparr>,
        fl6_daddr = \<lparr>in6_h = 0, in6_l = 0x0200000AFFFF0000\<rparr>,
        fl6_sport = 3, fl6_dport = 4\<rparr> 0x900000000 0))
     \<lparr>fl6_saddr = \<lparr>in6_h = 0, in6_l = 0x0100000AFFFF0000\<rparr>,
      fl6_daddr = \<lparr>in6_h = 0, in6_l = 0x0200000AFFFF0000\<rparr>,
      fl6_sport = 3, fl6_dport = 4\<rparr> 0x900000000 0
   = read_conn_tuple_partial_from_flowi6 ext0
       (conn_tuple_zero\<lparr>saddr_h := 1, saddr_l := 5, sport := 80\<rparr>)
       \<lparr>fl6_saddr = \<lparr>in6_h = 0, in6_l = 0x0100000AFFFF0000\<rparr>,
        fl6_daddr = \<lparr>in6_h = 0, in6_l = 0x0200000AFFFF0000\<rparr>,
        fl6_sport = 3, fl6_dport = 4\<rparr> 0x900000000 0"
  using flow_merge_keeps_set_fields
      [where x = ext0 and t = "conn_tuple_zero\<lparr>saddr_h := 1, saddr_l := 5, sport := 80\<rparr>"
         and ?fl4.0 = "\<lparr>fl4_saddr = 1, fl4_daddr = 2, fl4_sport = 3, fl4_dport = 4\<rparr>"
         and ?fl6.0 = "\<lparr>fl6_saddr = \<lparr>in6_h = 0, in6_l = 0x0100000AFFFF0000\<rparr>,
                        fl6_daddr = \<lparr>in6_h = 0, in6_l = 0x0200000AFFFF0000\<rparr>,
                        fl6_sport = 3, fl6_dport = 4\<rparr>"
         and pid_tgid = "0x900000000" and type = 0]
    mapped_high_zero_ext0
  by (simp add: conn_tuple_zero_def collapses6_def addrs_set6_def filled6_def ext0_def
      is_ipv4_mapped_ipv6_le_def)

text \<open>
  C2. When the addresses the tuple holds after the fallback reads of lines 60-67 pass
  \<^verbatim>\<open>is_ipv4_mapped_ipv6\<close> and the IPv6 resolver returns 1, the tuple it leaves has
  \<^verbatim>\<open>metadata = type | CONN_V4\<close>, both high halves zero, and as each low half the upper
  32 bits of the low half the address had: the last four bytes of the address, the
  embedded IPv4 address, on a little-endian host.
\<close>

theorem ipv4_mapped_collapse:
  assumes "collapses6 x t fl6"
    and "fst (read_conn_tuple_partial_from_flowi6 x t fl6 pid_tgid type) = 1"
  shows "metadata (snd (read_conn_tuple_partial_from_flowi6 x t fl6 pid_tgid type))
           = type OR CONN_V4 x \<and>
         saddr_h (snd (read_conn_tuple_partial_from_flowi6 x t fl6 pid_tgid type)) = 0 \<and>
         daddr_h (snd (read_conn_tuple_partial_from_flowi6 x t fl6 pid_tgid type)) = 0 \<and>
         saddr_l (snd (read_conn_tuple_partial_from_flowi6 x t fl6 pid_tgid type))
           = ucast (ucast (drop_bit 32
               (snd (filled6 (saddr_h t) (saddr_l t) (fl6_saddr fl6)))) :: u32) \<and>
         daddr_l (snd (read_conn_tuple_partial_from_flowi6 x t fl6 pid_tgid type))
           = ucast (ucast (drop_bit 32
               (snd (filled6 (daddr_h t) (daddr_l t) (fl6_daddr fl6)))) :: u32)"
proof -
  from assms(1) have "addrs_set6 t fl6"
    by (simp add: collapses6_def)
  with assms(1) show ?thesis
    by (simp add: flowi6_tuple)
qed

theorem ipv4_mapped_collapse_witness:
  "read_conn_tuple_partial_from_flowi6 ext0 conn_tuple_zero
       \<lparr>fl6_saddr = \<lparr>in6_h = 0, in6_l = 0x0100000AFFFF0000\<rparr>,
        fl6_daddr = \<lparr>in6_h = 0, in6_l = 0x0200000AFFFF0000\<rparr>,
        fl6_sport = 0x8813, fl6_dport = 0x5000\<rparr> 0x6400000065 0
     = (1, \<lparr>saddr_h = 0, saddr_l = 0x0100000A, daddr_h = 0, daddr_l = 0x0200000A,
            sport = 5000, dport = 80, netns = 0, pid = 100, metadata = 0\<rparr>)"
proof -
  let ?fl = "\<lparr>fl6_saddr = \<lparr>in6_h = 0, in6_l = 0x0100000AFFFF0000\<rparr>,
              fl6_daddr = \<lparr>in6_h = 0, in6_l = 0x0200000AFFFF0000\<rparr>,
              fl6_sport = 0x8813, fl6_dport = 0x5000\<rparr>"
  have c: "collapses6 ext0 conn_tuple_zero ?fl"
    by (simp add: collapses6_def addrs_set6_def filled6_def ext0_def is_ipv4_mapped_ipv6_le_def
        conn_tuple_zero_def)
  have r: "fst (read_conn_tuple_partial_from_flowi6 ext0 conn_tuple_zero ?fl 0x6400000065 0) = 1"
    by (simp add: flowi6_ret filled6_def filled_def ext0_def bpf_ntohs_le_def conn_tuple_zero_def)
  have p: "sport (snd (read_conn_tuple_partial_from_flowi6 ext0 conn_tuple_zero ?fl 0x6400000065 0)) = 5000"
      "dport (snd (read_conn_tuple_partial_from_flowi6 ext0 conn_tuple_zero ?fl 0x6400000065 0)) = 80"
      "netns (snd (read_conn_tuple_partial_from_flowi6 ext0 conn_tuple_zero ?fl 0x6400000065 0)) = 0"
      "pid (snd (read_conn_tuple_partial_from_flowi6 ext0 conn_tuple_zero ?fl 0x6400000065 0)) = 100"
    by (simp_all add: flowi6_tuple addrs_set6_def filled6_def filled_def ext0_def
        bpf_ntohs_le_def conn_tuple_zero_def drop_bit_eq_div)
  from ipv4_mapped_collapse [OF c r] r p show ?thesis
    by (simp add: prod_eq_iff filled6_def conn_tuple_zero_def ext0_def drop_bit_eq_div)
qed

text \<open>
  C3. Each resolver returns 0 when, after the fallback reads, the source address, the
  destination address, the source port or the destination port is zero, and 1
  otherwise. The fallback value of a field is \<open>filled\<close>; an IPv6 address is zero when
  both its halves are (lines 69 and 73), and the test comes before line 79 rewrites
  the addresses.
\<close>

theorem invalid_tuple_rejection:
  "fst (read_conn_tuple_partial_from_flowi4 x t fl4 pid_tgid type) =
     (if filled (saddr_l t) (ucast (fl4_saddr fl4)) = 0 \<or>
         filled (daddr_l t) (ucast (fl4_daddr fl4)) = 0 \<or>
         filled (sport t) (bpf_ntohs x (fl4_sport fl4)) = 0 \<or>
         filled (dport t) (bpf_ntohs x (fl4_dport fl4)) = 0 then 0 else 1) \<and>
   fst (read_conn_tuple_partial_from_flowi6 x t fl6 pid_tgid type) =
     (if filled6 (saddr_h t) (saddr_l t) (fl6_saddr fl6) = (0, 0) \<or>
         filled6 (daddr_h t) (daddr_l t) (fl6_daddr fl6) = (0, 0) \<or>
         filled (sport t) (bpf_ntohs x (fl6_sport fl6)) = 0 \<or>
         filled (dport t) (bpf_ntohs x (fl6_dport fl6)) = 0 then 0 else 1)"
  by (simp only: flowi4_ret flowi6_ret simp_thms)

theorem invalid_tuple_rejection_witness:
  "fst (read_conn_tuple_partial_from_flowi4 ext0 (conn_tuple_zero\<lparr>sport := 80\<rparr>)
       \<lparr>fl4_saddr = 1, fl4_daddr = 2, fl4_sport = 3, fl4_dport = 0\<rparr> 0x900000000 0) = 0 \<and>
   fst (read_conn_tuple_partial_from_flowi4 ext0 (conn_tuple_zero\<lparr>sport := 80\<rparr>)
       \<lparr>fl4_saddr = 1, fl4_daddr = 2, fl4_sport = 0, fl4_dport = 4\<rparr> 0x900000000 0) = 1 \<and>
   fst (read_conn_tuple_partial_from_flowi6 ext0 (conn_tuple_zero\<lparr>sport := 80\<rparr>)
       \<lparr>fl6_saddr = \<lparr>in6_h = 0, in6_l = 0\<rparr>, fl6_daddr = \<lparr>in6_h = 0, in6_l = 1\<rparr>,
        fl6_sport = 3, fl6_dport = 4\<rparr> 0x900000000 0) = 0 \<and>
   fst (read_conn_tuple_partial_from_flowi6 ext0 (conn_tuple_zero\<lparr>sport := 80\<rparr>)
       \<lparr>fl6_saddr = \<lparr>in6_h = 0, in6_l = 7\<rparr>, fl6_daddr = \<lparr>in6_h = 0, in6_l = 1\<rparr>,
        fl6_sport = 3, fl6_dport = 4\<rparr> 0x900000000 0) = 1"
  using invalid_tuple_rejection
      [where x = ext0 and t = "conn_tuple_zero\<lparr>sport := 80\<rparr>"
         and ?fl4.0 = "\<lparr>fl4_saddr = 1, fl4_daddr = 2, fl4_sport = 3, fl4_dport = 0\<rparr>"
         and ?fl6.0 = "\<lparr>fl6_saddr = \<lparr>in6_h = 0, in6_l = 0\<rparr>, fl6_daddr = \<lparr>in6_h = 0, in6_l = 1\<rparr>,
                        fl6_sport = 3, fl6_dport = 4\<rparr>"
         and pid_tgid = "0x900000000" and type = 0]
    invalid_tuple_rejection
      [where x = ext0 and t = "conn_tuple_zero\<lparr>sport := 80\<rparr>"
         and ?fl4.0 = "\<lparr>fl4_saddr = 1, fl4_daddr = 2, fl4_sport = 0, fl4_dport = 4\<rparr>"
         and ?fl6.0 = "\<lparr>fl6_saddr = \<lparr>in6_h = 0, in6_l = 7\<rparr>, fl6_daddr = \<lparr>in6_h = 0, in6_l = 1\<rparr>,
                        fl6_sport = 3, fl6_dport = 4\<rparr>"
         and pid_tgid = "0x900000000" and type = 0]
  by (simp add: filled_def filled6_def conn_tuple_zero_def ext0_def bpf_ntohs_le_def)

section \<open>Map operations\<close>

lemma lookup_delete_same: "bpf_map_lookup_elem (bpf_map_delete_elem m k) k = None"
  by (simp add: bpf_map_lookup_elem_def bpf_map_delete_elem_def delete_conv')

lemma lookup_delete_other:
  "k' \<noteq> k \<Longrightarrow> bpf_map_lookup_elem (bpf_map_delete_elem m k) k' = bpf_map_lookup_elem m k'"
  by (simp add: bpf_map_lookup_elem_def bpf_map_delete_elem_def delete_conv')

lemma lookup_update_same:
  "has_room m k \<Longrightarrow> bpf_map_lookup_elem (bpf_map_update_elem m k v) k = Some v"
  by (simp add: bpf_map_lookup_elem_def bpf_map_update_elem_def has_room_def update_conv')

lemma lookup_update_other:
  "k' \<noteq> k \<Longrightarrow> bpf_map_lookup_elem (bpf_map_update_elem m k v) k' = bpf_map_lookup_elem m k'"
  by (simp add: bpf_map_lookup_elem_def bpf_map_update_elem_def update_conv')

lemma update_full: "\<not> has_room m k \<Longrightarrow> bpf_map_update_elem m k v = m"
  by (simp add: bpf_map_update_elem_def has_room_def)

lemma has_room_absent:
  "bpf_map_lookup_elem m k = None \<Longrightarrow> has_room m k \<longleftrightarrow> length (entries m) < max_entries m"
  by (simp add: has_room_def bpf_map_lookup_elem_def map_of_eq_None_iff)

section \<open>The handlers, path by path\<close>

lemma handle_udp_send_miss:
  "bpf_map_lookup_elem (udp_send_skb_args s) pid_tgid = None \<Longrightarrow>
     handle_udp_send sk sent pid_tgid s = (0, s)"
  by (simp add: handle_udp_send_def)

lemma handle_udp_send_hit:
  "bpf_map_lookup_elem (udp_send_skb_args s) pid_tgid = Some t \<Longrightarrow> 0 < sent \<Longrightarrow>
     handle_udp_send sk sent pid_tgid s =
       (0, s\<lparr>udp_send_skb_args := bpf_map_delete_elem (udp_send_skb_args s) pid_tgid,
              calls := calls s @ [Handle_message t sent 0 CONN_DIRECTION_UNKNOWN 1 0
                                    PACKET_COUNT_NONE sk]\<rparr>)"
  by (simp add: handle_udp_send_def do_call_def Let_def)

lemma kprobe__udp_send_skb_miss:
  assumes "fst (read_conn_tuple x t0 sk pid_tgid (CONN_TYPE_UDP x)) = 0"
    and "fst (read_conn_tuple_partial_from_flowi4 x
               (snd (read_conn_tuple x t0 sk pid_tgid (CONN_TYPE_UDP x))) fl4 pid_tgid
               (CONN_TYPE_UDP x)) = 0"
  shows "kprobe__udp_send_skb x t0 sk fl4 pid_tgid s =
           (0, s\<lparr>udp_send_missed := udp_send_missed s + 1,
                  calls := calls s @ [Read_conn_tuple sk pid_tgid (CONN_TYPE_UDP x)]\<rparr>)"
  using assms
  by (simp add: kprobe__udp_send_skb_def increment_telemetry_count_udp_send_missed_def
      do_call_def Let_def split_beta)

lemma kprobe__udp_v6_send_skb_miss:
  assumes "fst (read_conn_tuple x t0 sk pid_tgid (CONN_TYPE_UDP x)) = 0"
    and "fst (read_conn_tuple_partial_from_flowi6 x
               (snd (read_conn_tuple x t0 sk pid_tgid (CONN_TYPE_UDP x))) fl6 pid_tgid
               (CONN_TYPE_UDP x)) = 0"
  shows "kprobe__udp_v6_send_skb x t0 sk fl6 pid_tgid s =
           (0, s\<lparr>udp_send_missed := udp_send_missed s + 1,
                  calls := calls s @ [Read_conn_tuple sk pid_tgid (CONN_TYPE_UDP x)]\<rparr>)"
  using assms
  by (simp add: kprobe__udp_v6_send_skb_def increment_telemetry_count_udp_send_missed_def
      do_call_def Let_def split_beta)

lemma sockfd_lookup_light_exit_known:
  "bpf_map_lookup_elem (sock_by_pid_fd s)
       \<lparr>pf_pid = ucast (drop_bit 32 pid_tgid), pf_fd = fd\<rparr> = Some skp \<Longrightarrow>
     sockfd_lookup_light_exit fd socket pid_tgid s = (0, s)"
  by (simp add: sockfd_lookup_light_exit_def)

lemma sockfd_lookup_light_exit_no_ops:
  "so_ops socket = None \<Longrightarrow> sockfd_lookup_light_exit fd socket pid_tgid s = (0, s)"
  by (simp add: sockfd_lookup_light_exit_def split: option.split)

lemma sockfd_lookup_light_exit_other:
  "so_type socket \<noteq> SOCK_STREAM \<or>
   (\<forall>po. so_ops socket = Some po \<longrightarrow> po_family po \<noteq> AF_INET \<and> po_family po \<noteq> AF_INET6) \<Longrightarrow>
     sockfd_lookup_light_exit fd socket pid_tgid s = (0, s)"
  by (auto simp add: sockfd_lookup_light_exit_def Let_def split: option.split)

lemma sockfd_lookup_light_exit_registers:
  assumes "bpf_map_lookup_elem (sock_by_pid_fd s)
             \<lparr>pf_pid = ucast (drop_bit 32 pid_tgid), pf_fd = fd\<rparr> = None"
    and "so_ops socket = Some po"
    and "so_type socket = SOCK_STREAM"
    and "po_family po = AF_INET \<or> po_family po = AF_INET6"
  shows "sockfd_lookup_light_exit fd socket pid_tgid s =
           (0, s\<lparr>sock_by_pid_fd :=
                    bpf_map_update_with_telemetry (sock_by_pid_fd s)
                      \<lparr>pf_pid = ucast (drop_bit 32 pid_tgid), pf_fd = fd\<rparr> (so_sk socket),
                  pid_fd_by_sock :=
                    bpf_map_update_with_telemetry (pid_fd_by_sock s) (so_sk socket)
                      \<lparr>pf_pid = ucast (drop_bit 32 pid_tgid), pf_fd = fd\<rparr>\<rparr>)"
  using assms by (auto simp add: sockfd_lookup_light_exit_def Let_def)

lemma sys_exit_bind_eq:
  assumes "so_type sock AND SOCK_DGRAM \<noteq> 0"
  shows "sys_exit_bind x sock (Some a) 0 s =
     (0, if sockaddr_port x a \<noteq> 0
         then s\<lparr>calls := calls s @
                  [Add_port_bind \<lparr>pb_netns = 0, pb_port = sockaddr_port x a\<rparr> Udp_port_bindings]\<rparr>
         else if read_sport x (so_sk sock) \<noteq> 0
         then s\<lparr>calls := calls s @
                  [Read_sport (so_sk sock),
                   Add_port_bind \<lparr>pb_netns = 0, pb_port = read_sport x (so_sk sock)\<rparr>
                     Udp_port_bindings]\<rparr>
         else s\<lparr>calls := calls s @ [Read_sport (so_sk sock)]\<rparr>)"
  using assms
  by (simp add: sys_exit_bind_def sockaddr_port_def do_call_def Let_def)






section \<open>Claims about the handlers\<close>

text \<open>
  C4, as stated, fails: on a send-completed event with nothing staged for the thread,
  \<^verbatim>\<open>handle_udp_send\<close> returns at line 172 and increments no counter. With every map empty
  the state after \<^verbatim>\<open>fexit/udp_sendmsg\<close> is the state before, \<^verbatim>\<open>udp_send_missed\<close> included.
\<close>

theorem udp_send_miss_counts_nothing:
  "bpf_map_lookup_elem (udp_send_skb_args state0) 7 = None \<and>
   udp_send_missed (snd (udp_sendmsg_exit 200 100 7 state0)) = udp_send_missed state0 \<and>
   snd (udp_sendmsg_exit 200 100 7 state0) = state0 \<and>
   snd (udpv6_sendmsg_exit 200 100 7 state0) = state0"
  by (simp add: udp_sendmsg_exit_def udpv6_sendmsg_exit_def handle_udp_send_def
      bpf_map_lookup_elem_def state0_def)

text \<open>
  C4, amended. A send-completed event with nothing staged for the thread forwards no
  observation and leaves the whole state as it was. With a tuple staged and a byte
  count above zero, the handler forwards one send observation with the staged tuple
  (one packet out, none in, no packet count supplied) and deletes the entry. The miss
  counter \<^verbatim>\<open>udp_send_missed\<close> is incremented by the staging handlers instead: by
  \<^verbatim>\<open>kprobe/udp_send_skb\<close> and \<^verbatim>\<open>kprobe/udp_v6_send_skb\<close>, when neither the socket nor the
  flow descriptor resolves a tuple.
\<close>

theorem udp_send_completed:
  "(bpf_map_lookup_elem (udp_send_skb_args s) pid_tgid = None \<longrightarrow>
      udp_sendmsg_exit sk sent pid_tgid s = (0, s) \<and>
      udpv6_sendmsg_exit sk sent pid_tgid s = (0, s)) \<and>
   (bpf_map_lookup_elem (udp_send_skb_args s) pid_tgid = Some t \<and> 0 < sent \<longrightarrow>
      udp_sendmsg_exit sk sent pid_tgid s =
        (0, s\<lparr>udp_send_skb_args := bpf_map_delete_elem (udp_send_skb_args s) pid_tgid,
               calls := calls s @ [Handle_message t sent 0 CONN_DIRECTION_UNKNOWN 1 0
                                     PACKET_COUNT_NONE sk]\<rparr>) \<and>
      udpv6_sendmsg_exit sk sent pid_tgid s = udp_sendmsg_exit sk sent pid_tgid s \<and>
      bpf_map_lookup_elem (udp_send_skb_args (snd (udp_sendmsg_exit sk sent pid_tgid s)))
        pid_tgid = None) \<and>
   (fst (read_conn_tuple x t0 sk pid_tgid (CONN_TYPE_UDP x)) = 0 \<and>
    fst (read_conn_tuple_partial_from_flowi4 x
          (snd (read_conn_tuple x t0 sk pid_tgid (CONN_TYPE_UDP x))) fl4 pid_tgid
          (CONN_TYPE_UDP x)) = 0 \<longrightarrow>
      kprobe__udp_send_skb x t0 sk fl4 pid_tgid s =
        (0, s\<lparr>udp_send_missed := udp_send_missed s + 1,
               calls := calls s @ [Read_conn_tuple sk pid_tgid (CONN_TYPE_UDP x)]\<rparr>)) \<and>
   (fst (read_conn_tuple x t0 sk pid_tgid (CONN_TYPE_UDP x)) = 0 \<and>
    fst (read_conn_tuple_partial_from_flowi6 x
          (snd (read_conn_tuple x t0 sk pid_tgid (CONN_TYPE_UDP x))) fl6 pid_tgid
          (CONN_TYPE_UDP x)) = 0 \<longrightarrow>
      kprobe__udp_v6_send_skb x t0 sk fl6 pid_tgid s =
        (0, s\<lparr>udp_send_missed := udp_send_missed s + 1,
               calls := calls s @ [Read_conn_tuple sk pid_tgid (CONN_TYPE_UDP x)]\<rparr>))"
proof -
  have miss: "bpf_map_lookup_elem (udp_send_skb_args s) pid_tgid = None \<longrightarrow>
      udp_sendmsg_exit sk sent pid_tgid s = (0, s) \<and>
      udpv6_sendmsg_exit sk sent pid_tgid s = (0, s)"
    by (simp add: udp_sendmsg_exit_def udpv6_sendmsg_exit_def handle_udp_send_miss)
  have hit: "bpf_map_lookup_elem (udp_send_skb_args s) pid_tgid = Some t \<and> 0 < sent \<longrightarrow>
      udp_sendmsg_exit sk sent pid_tgid s =
        (0, s\<lparr>udp_send_skb_args := bpf_map_delete_elem (udp_send_skb_args s) pid_tgid,
               calls := calls s @ [Handle_message t sent 0 CONN_DIRECTION_UNKNOWN 1 0
                                     PACKET_COUNT_NONE sk]\<rparr>) \<and>
      udpv6_sendmsg_exit sk sent pid_tgid s = udp_sendmsg_exit sk sent pid_tgid s \<and>
      bpf_map_lookup_elem (udp_send_skb_args (snd (udp_sendmsg_exit sk sent pid_tgid s)))
        pid_tgid = None"
    by (simp add: udp_sendmsg_exit_def udpv6_sendmsg_exit_def handle_udp_send_hit
        lookup_delete_same)
  show ?thesis
    using miss hit kprobe__udp_send_skb_miss [of x t0 sk pid_tgid fl4 s]
      kprobe__udp_v6_send_skb_miss [of x t0 sk pid_tgid fl6 s]
    by blast
qed

theorem udp_send_completed_witness:
  "udp_sendmsg_exit 200 100 7 state0 = (0, state0) \<and>
   udp_sendmsg_exit 200 100 7
       (state0\<lparr>udp_send_skb_args := \<lparr>max_entries = 1024, entries = [(7, tuple1)]\<rparr>\<rparr>)
     = (0, state0\<lparr>calls := [Handle_message tuple1 100 0 CONN_DIRECTION_UNKNOWN 1 0
                                PACKET_COUNT_NONE 200]\<rparr>) \<and>
   kprobe__udp_send_skb ext0 conn_tuple_zero 200
       \<lparr>fl4_saddr = 0, fl4_daddr = 0, fl4_sport = 0, fl4_dport = 0\<rparr> 7 state0
     = (0, state0\<lparr>udp_send_missed := 1, calls := [Read_conn_tuple 200 7 0]\<rparr>)"
proof -
  have h1: "bpf_map_lookup_elem (udp_send_skb_args state0) 7 = None"
    by (simp add: bpf_map_lookup_elem_def state0_def)
  have h2: "bpf_map_lookup_elem (udp_send_skb_args
      (state0\<lparr>udp_send_skb_args := \<lparr>max_entries = 1024, entries = [(7, tuple1)]\<rparr>\<rparr>)) 7
      = Some tuple1 \<and> (0::int) < 100"
    by (simp add: bpf_map_lookup_elem_def state0_def)
  have h3: "fst (read_conn_tuple ext0 conn_tuple_zero 200 7 (CONN_TYPE_UDP ext0)) = 0 \<and>
    fst (read_conn_tuple_partial_from_flowi4 ext0
          (snd (read_conn_tuple ext0 conn_tuple_zero 200 7 (CONN_TYPE_UDP ext0)))
          \<lparr>fl4_saddr = 0, fl4_daddr = 0, fl4_sport = 0, fl4_dport = 0\<rparr> 7
          (CONN_TYPE_UDP ext0)) = 0"
    by (simp add: ext0_def flowi4_ret filled_def conn_tuple_zero_def)
  show ?thesis
    using h1 h3
      udp_send_completed [where s = state0 and pid_tgid = 7 and sk = 200 and sent = 100
        and x = ext0 and ?t0.0 = conn_tuple_zero
        and ?fl4.0 = "\<lparr>fl4_saddr = 0, fl4_daddr = 0, fl4_sport = 0, fl4_dport = 0\<rparr>"]
      h2 udp_send_completed
        [where s = "state0\<lparr>udp_send_skb_args := \<lparr>max_entries = 1024, entries = [(7, tuple1)]\<rparr>\<rparr>"
           and pid_tgid = 7 and sk = 200 and sent = 100 and t = tuple1]
    by (simp add: state0_def bpf_map_delete_elem_def ext0_def)
qed

text \<open>
  C5, as stated, fails: the pairing is not kept at all times. \<^verbatim>\<open>pid_fd_by_sock\<close> has
  one entry per socket and is written with \<^verbatim>\<open>BPF_ANY\<close>, so when process 1 resolves
  descriptor 3 and then descriptor 4 to the same socket (a duplicated descriptor), the
  second registration replaces the socket's entry: descriptor 3 still maps to the
  socket, and the socket maps to descriptor 4 only.
\<close>

theorem descriptor_pair_broken_by_second_descriptor:
  "bpf_map_lookup_elem
     (sock_by_pid_fd (snd (sockfd_lookup_light_exit 4 stream_socket 0x100000001
        (snd (sockfd_lookup_light_exit 3 stream_socket 0x100000001 state0)))))
     \<lparr>pf_pid = 1, pf_fd = 3\<rparr> = Some 100 \<and>
   bpf_map_lookup_elem
     (pid_fd_by_sock (snd (sockfd_lookup_light_exit 4 stream_socket 0x100000001
        (snd (sockfd_lookup_light_exit 3 stream_socket 0x100000001 state0)))))
     100 = Some \<lparr>pf_pid = 1, pf_fd = 4\<rparr>"
  by (simp add: sockfd_lookup_light_exit_def bpf_map_lookup_elem_def
      bpf_map_update_with_telemetry_def bpf_map_update_elem_def state0_def stream_socket_def
      AF_INET_def AF_INET6_def SOCK_STREAM_def Let_def drop_bit_eq_div)

text \<open>
  C5, amended. The handler either leaves the state as it was or applies both updates,
  \<^verbatim>\<open>pid_fd_by_sock\<close> first. When it registers (the descriptor is not indexed yet, the
  socket is a stream socket of family \<^verbatim>\<open>AF_INET\<close> or \<^verbatim>\<open>AF_INET6\<close>) and each map can take
  its entry, both directions exist for the process, descriptor and socket when the
  handler returns.
\<close>

theorem registration_writes_pair:
  "(sockfd_lookup_light_exit fd socket pid_tgid s = (0, s) \<or>
    sockfd_lookup_light_exit fd socket pid_tgid s =
      (0, s\<lparr>sock_by_pid_fd :=
               bpf_map_update_with_telemetry (sock_by_pid_fd s)
                 \<lparr>pf_pid = ucast (drop_bit 32 pid_tgid), pf_fd = fd\<rparr> (so_sk socket),
             pid_fd_by_sock :=
               bpf_map_update_with_telemetry (pid_fd_by_sock s) (so_sk socket)
                 \<lparr>pf_pid = ucast (drop_bit 32 pid_tgid), pf_fd = fd\<rparr>\<rparr>)) \<and>
   (bpf_map_lookup_elem (sock_by_pid_fd s)
        \<lparr>pf_pid = ucast (drop_bit 32 pid_tgid), pf_fd = fd\<rparr> = None \<and>
    so_ops socket = Some po \<and> so_type socket = SOCK_STREAM \<and>
    (po_family po = AF_INET \<or> po_family po = AF_INET6) \<and>
    has_room (pid_fd_by_sock s) (so_sk socket) \<and>
    has_room (sock_by_pid_fd s) \<lparr>pf_pid = ucast (drop_bit 32 pid_tgid), pf_fd = fd\<rparr> \<longrightarrow>
      bpf_map_lookup_elem (sock_by_pid_fd (snd (sockfd_lookup_light_exit fd socket pid_tgid s)))
          \<lparr>pf_pid = ucast (drop_bit 32 pid_tgid), pf_fd = fd\<rparr> = Some (so_sk socket) \<and>
      bpf_map_lookup_elem (pid_fd_by_sock (snd (sockfd_lookup_light_exit fd socket pid_tgid s)))
          (so_sk socket) = Some \<lparr>pf_pid = ucast (drop_bit 32 pid_tgid), pf_fd = fd\<rparr>)"
proof -
  let ?key = "\<lparr>pf_pid = ucast (drop_bit 32 pid_tgid), pf_fd = fd\<rparr>"
  let ?reg = "(0::int, s\<lparr>sock_by_pid_fd :=
               bpf_map_update_with_telemetry (sock_by_pid_fd s) ?key (so_sk socket),
             pid_fd_by_sock :=
               bpf_map_update_with_telemetry (pid_fd_by_sock s) (so_sk socket) ?key\<rparr>)"
  have either: "sockfd_lookup_light_exit fd socket pid_tgid s = (0, s) \<or>
      sockfd_lookup_light_exit fd socket pid_tgid s = ?reg"
  proof (cases "bpf_map_lookup_elem (sock_by_pid_fd s) ?key")
    case (Some skp)
    then show ?thesis by (simp add: sockfd_lookup_light_exit_known)
  next
    case None
    show ?thesis
    proof (cases "so_ops socket")
      case None
      then show ?thesis by (simp add: sockfd_lookup_light_exit_no_ops)
    next
      case (Some po')
      show ?thesis
      proof (cases "so_type socket = SOCK_STREAM \<and>
          (po_family po' = AF_INET \<or> po_family po' = AF_INET6)")
        case True
        with None Some show ?thesis
          using sockfd_lookup_light_exit_registers [of s pid_tgid fd socket po'] by simp
      next
        case False
        with Some have "sockfd_lookup_light_exit fd socket pid_tgid s = (0, s)"
          by (intro sockfd_lookup_light_exit_other) auto
        then show ?thesis by simp
      qed
    qed
  qed
  have pair: "bpf_map_lookup_elem (sock_by_pid_fd s) ?key = None \<and>
    so_ops socket = Some po \<and> so_type socket = SOCK_STREAM \<and>
    (po_family po = AF_INET \<or> po_family po = AF_INET6) \<and>
    has_room (pid_fd_by_sock s) (so_sk socket) \<and>
    has_room (sock_by_pid_fd s) ?key \<longrightarrow>
      bpf_map_lookup_elem (sock_by_pid_fd (snd (sockfd_lookup_light_exit fd socket pid_tgid s)))
          ?key = Some (so_sk socket) \<and>
      bpf_map_lookup_elem (pid_fd_by_sock (snd (sockfd_lookup_light_exit fd socket pid_tgid s)))
          (so_sk socket) = Some ?key"
    using sockfd_lookup_light_exit_registers [of s pid_tgid fd socket po]
    by (auto simp add: bpf_map_update_with_telemetry_def lookup_update_same)
  from either pair show ?thesis by blast
qed

theorem registration_writes_pair_witness:
  "bpf_map_lookup_elem
     (sock_by_pid_fd (snd (sockfd_lookup_light_exit 3 stream_socket 0x100000001 state0)))
     \<lparr>pf_pid = 1, pf_fd = 3\<rparr> = Some 100 \<and>
   bpf_map_lookup_elem
     (pid_fd_by_sock (snd (sockfd_lookup_light_exit 3 stream_socket 0x100000001 state0)))
     100 = Some \<lparr>pf_pid = 1, pf_fd = 3\<rparr>"
proof -
  have h: "bpf_map_lookup_elem (sock_by_pid_fd state0)
        \<lparr>pf_pid = ucast (drop_bit 32 (0x100000001 :: u64)), pf_fd = 3\<rparr> = None \<and>
    so_ops stream_socket = Some \<lparr>po_family = AF_INET\<rparr> \<and> so_type stream_socket = SOCK_STREAM \<and>
    (po_family \<lparr>po_family = AF_INET\<rparr> = AF_INET \<or> po_family \<lparr>po_family = AF_INET\<rparr> = AF_INET6) \<and>
    has_room (pid_fd_by_sock state0) (so_sk stream_socket) \<and>
    has_room (sock_by_pid_fd state0) \<lparr>pf_pid = ucast (drop_bit 32 (0x100000001 :: u64)), pf_fd = 3\<rparr>"
    by (simp add: bpf_map_lookup_elem_def state0_def stream_socket_def has_room_def)
  have p: "(ucast (drop_bit 32 (0x100000001 :: u64)) :: u32) = 1" "so_sk stream_socket = 100"
    by (simp_all add: drop_bit_eq_div stream_socket_def)
  from registration_writes_pair
      [where s = state0 and fd = 3 and socket = stream_socket and pid_tgid = "0x100000001"
         and po = "\<lparr>po_family = AF_INET\<rparr>"] h
  show ?thesis
    by (simp add: p)
qed

text \<open>
  C9. When the process and descriptor already have an entry, the handler leaves the
  state as it was. It changes the state only when there is no such entry, the socket
  has a \<^verbatim>\<open>proto_ops\<close>, is of type \<^verbatim>\<open>SOCK_STREAM\<close> and of family \<^verbatim>\<open>AF_INET\<close> or \<^verbatim>\<open>AF_INET6\<close>,
  and then by the two updates; for a socket of another type or family it leaves the
  state as it was.
\<close>

theorem descriptor_registered_if_absent:
  "(bpf_map_lookup_elem (sock_by_pid_fd s)
        \<lparr>pf_pid = ucast (drop_bit 32 pid_tgid), pf_fd = fd\<rparr> \<noteq> None \<longrightarrow>
      sockfd_lookup_light_exit fd socket pid_tgid s = (0, s)) \<and>
   (so_type socket \<noteq> SOCK_STREAM \<or>
    (\<forall>po. so_ops socket = Some po \<longrightarrow> po_family po \<noteq> AF_INET \<and> po_family po \<noteq> AF_INET6) \<longrightarrow>
      sockfd_lookup_light_exit fd socket pid_tgid s = (0, s)) \<and>
   (sockfd_lookup_light_exit fd socket pid_tgid s \<noteq> (0, s) \<longrightarrow>
      bpf_map_lookup_elem (sock_by_pid_fd s)
        \<lparr>pf_pid = ucast (drop_bit 32 pid_tgid), pf_fd = fd\<rparr> = None \<and>
      so_type socket = SOCK_STREAM \<and>
      (\<exists>po. so_ops socket = Some po \<and> (po_family po = AF_INET \<or> po_family po = AF_INET6))) \<and>
   (bpf_map_lookup_elem (sock_by_pid_fd s)
        \<lparr>pf_pid = ucast (drop_bit 32 pid_tgid), pf_fd = fd\<rparr> = None \<and>
    so_ops socket = Some po \<and> so_type socket = SOCK_STREAM \<and>
    (po_family po = AF_INET \<or> po_family po = AF_INET6) \<longrightarrow>
      sockfd_lookup_light_exit fd socket pid_tgid s =
        (0, s\<lparr>sock_by_pid_fd :=
                 bpf_map_update_with_telemetry (sock_by_pid_fd s)
                   \<lparr>pf_pid = ucast (drop_bit 32 pid_tgid), pf_fd = fd\<rparr> (so_sk socket),
               pid_fd_by_sock :=
                 bpf_map_update_with_telemetry (pid_fd_by_sock s) (so_sk socket)
                   \<lparr>pf_pid = ucast (drop_bit 32 pid_tgid), pf_fd = fd\<rparr>\<rparr>))"
proof -
  let ?key = "\<lparr>pf_pid = ucast (drop_bit 32 pid_tgid), pf_fd = fd\<rparr>"
  have known: "bpf_map_lookup_elem (sock_by_pid_fd s) ?key \<noteq> None \<longrightarrow>
      sockfd_lookup_light_exit fd socket pid_tgid s = (0, s)"
    by (auto simp add: sockfd_lookup_light_exit_known)
  have other: "so_type socket \<noteq> SOCK_STREAM \<or>
    (\<forall>po. so_ops socket = Some po \<longrightarrow> po_family po \<noteq> AF_INET \<and> po_family po \<noteq> AF_INET6) \<longrightarrow>
      sockfd_lookup_light_exit fd socket pid_tgid s = (0, s)"
    using sockfd_lookup_light_exit_other [of socket fd pid_tgid s] by blast
  have only: "sockfd_lookup_light_exit fd socket pid_tgid s \<noteq> (0, s) \<longrightarrow>
      bpf_map_lookup_elem (sock_by_pid_fd s) ?key = None \<and>
      so_type socket = SOCK_STREAM \<and>
      (\<exists>po. so_ops socket = Some po \<and> (po_family po = AF_INET \<or> po_family po = AF_INET6))"
    using known other sockfd_lookup_light_exit_no_ops [of socket fd pid_tgid s]
    by (cases "so_ops socket") auto
  have reg: "bpf_map_lookup_elem (sock_by_pid_fd s) ?key = None \<and>
    so_ops socket = Some po \<and> so_type socket = SOCK_STREAM \<and>
    (po_family po = AF_INET \<or> po_family po = AF_INET6) \<longrightarrow>
      sockfd_lookup_light_exit fd socket pid_tgid s =
        (0, s\<lparr>sock_by_pid_fd :=
                 bpf_map_update_with_telemetry (sock_by_pid_fd s) ?key (so_sk socket),
               pid_fd_by_sock :=
                 bpf_map_update_with_telemetry (pid_fd_by_sock s) (so_sk socket) ?key\<rparr>)"
    using sockfd_lookup_light_exit_registers [of s pid_tgid fd socket po] by blast
  from known other only reg show ?thesis by blast
qed

theorem descriptor_registered_if_absent_witness:
  "sockfd_lookup_light_exit 3 stream_socket 0x100000001 state0 =
     (0, state0\<lparr>sock_by_pid_fd := \<lparr>max_entries = 1024, entries = [(\<lparr>pf_pid = 1, pf_fd = 3\<rparr>, 100)]\<rparr>,
               pid_fd_by_sock := \<lparr>max_entries = 1024, entries = [(100, \<lparr>pf_pid = 1, pf_fd = 3\<rparr>)]\<rparr>\<rparr>) \<and>
   sockfd_lookup_light_exit 3 (stream_socket\<lparr>so_sk := 300\<rparr>) 0x100000001
     (state0\<lparr>sock_by_pid_fd := \<lparr>max_entries = 1024, entries = [(\<lparr>pf_pid = 1, pf_fd = 3\<rparr>, 100)]\<rparr>,
             pid_fd_by_sock := \<lparr>max_entries = 1024, entries = [(100, \<lparr>pf_pid = 1, pf_fd = 3\<rparr>)]\<rparr>\<rparr>)
     = (0, state0\<lparr>sock_by_pid_fd := \<lparr>max_entries = 1024, entries = [(\<lparr>pf_pid = 1, pf_fd = 3\<rparr>, 100)]\<rparr>,
               pid_fd_by_sock := \<lparr>max_entries = 1024, entries = [(100, \<lparr>pf_pid = 1, pf_fd = 3\<rparr>)]\<rparr>\<rparr>) \<and>
   sockfd_lookup_light_exit 5 dgram_socket 0x100000001 state0 = (0, state0)"
proof -
  let ?s1 = "state0\<lparr>sock_by_pid_fd := \<lparr>max_entries = 1024, entries = [(\<lparr>pf_pid = 1, pf_fd = 3\<rparr>, 100)]\<rparr>,
               pid_fd_by_sock := \<lparr>max_entries = 1024, entries = [(100, \<lparr>pf_pid = 1, pf_fd = 3\<rparr>)]\<rparr>\<rparr>"
  let ?key = "\<lparr>pf_pid = ucast (drop_bit 32 (0x100000001 :: u64)), pf_fd = 3\<rparr>"
  have p: "(ucast (drop_bit 32 (0x100000001 :: u64)) :: u32) = 1"
    by (simp add: drop_bit_eq_div)
  have h1: "bpf_map_lookup_elem (sock_by_pid_fd state0) ?key = None \<and>
    so_ops stream_socket = Some \<lparr>po_family = AF_INET\<rparr> \<and> so_type stream_socket = SOCK_STREAM \<and>
    (po_family \<lparr>po_family = AF_INET\<rparr> = AF_INET \<or> po_family \<lparr>po_family = AF_INET\<rparr> = AF_INET6)"
    by (simp add: bpf_map_lookup_elem_def state0_def stream_socket_def)
  have h2: "bpf_map_lookup_elem (sock_by_pid_fd ?s1) ?key \<noteq> None"
    by (simp add: bpf_map_lookup_elem_def p)
  have h3: "so_type dgram_socket \<noteq> SOCK_STREAM \<or>
    (\<forall>po. so_ops dgram_socket = Some po \<longrightarrow> po_family po \<noteq> AF_INET \<and> po_family po \<noteq> AF_INET6)"
    by (simp add: dgram_socket_def SOCK_STREAM_def SOCK_DGRAM_def)
  have "sockfd_lookup_light_exit 3 stream_socket 0x100000001 state0 =
      (0, state0\<lparr>sock_by_pid_fd :=
                 bpf_map_update_with_telemetry (sock_by_pid_fd state0) ?key (so_sk stream_socket),
               pid_fd_by_sock :=
                 bpf_map_update_with_telemetry (pid_fd_by_sock state0) (so_sk stream_socket) ?key\<rparr>)"
    using descriptor_registered_if_absent
      [where s = state0 and fd = 3 and socket = stream_socket and pid_tgid = "0x100000001"
         and po = "\<lparr>po_family = AF_INET\<rparr>",
       THEN conjunct2, THEN conjunct2, THEN conjunct2, THEN mp, OF h1] .
  also have "\<dots> = (0, ?s1)"
    by (simp add: p state0_def bpf_map_update_with_telemetry_def bpf_map_update_elem_def
        stream_socket_def)
  finally have a: "sockfd_lookup_light_exit 3 stream_socket 0x100000001 state0 = (0, ?s1)" .
  have b: "sockfd_lookup_light_exit 3 (stream_socket\<lparr>so_sk := 300\<rparr>) 0x100000001 ?s1 = (0, ?s1)"
    using descriptor_registered_if_absent
      [where s = ?s1 and fd = 3 and socket = "stream_socket\<lparr>so_sk := 300\<rparr>"
         and pid_tgid = "0x100000001", THEN conjunct1, THEN mp, OF h2] .
  have c: "sockfd_lookup_light_exit 5 dgram_socket 0x100000001 state0 = (0, state0)"
    using descriptor_registered_if_absent
      [where s = state0 and fd = 5 and socket = dgram_socket and pid_tgid = "0x100000001",
       THEN conjunct2, THEN conjunct1, THEN mp, OF h3] .
  from a b c show ?thesis by (intro conjI)
qed

text \<open>
  C6, as stated, fails: when the port of the supplied address and the port read from
  the socket are both zero, \<^verbatim>\<open>sys_exit_bind\<close> writes a debug line (line 448) and returns;
  no counter is incremented. After \<^verbatim>\<open>fexit/inet_bind\<close> on a datagram socket, with port 0
  in the address and on a host where the socket's port reads as 0, the counter is what
  it was and the only call made is the read of the socket's port.
\<close>

theorem bind_port_zero_counts_nothing:
  "sockaddr_port ext0 \<lparr>sa_family = AF_INET, sin_port = 0, sin6_port = 0\<rparr> = 0 \<and>
   read_sport ext0 (so_sk dgram_socket) = 0 \<and>
   udp_send_missed (snd (inet_bind_exit ext0 dgram_socket
       (Some \<lparr>sa_family = AF_INET, sin_port = 0, sin6_port = 0\<rparr>) 0 state0))
     = udp_send_missed state0 \<and>
   snd (inet_bind_exit ext0 dgram_socket
       (Some \<lparr>sa_family = AF_INET, sin_port = 0, sin6_port = 0\<rparr>) 0 state0)
     = state0\<lparr>calls := [Read_sport 200]\<rparr>"
  by (simp add: inet_bind_exit_def sys_exit_bind_def sockaddr_port_def do_call_def Let_def
      ext0_def bpf_ntohs_le_def dgram_socket_def state0_def AF_INET_def SOCK_DGRAM_def)

text \<open>
  C6, amended. For a bind-completed event with return code 0, a socket whose type has
  the \<^verbatim>\<open>SOCK_DGRAM\<close> bit and a supplied address: the port is that of the address by
  family, in host order; when it is zero the port is read from the socket. A port that
  is not zero is recorded with \<^verbatim>\<open>add_port_bind\<close> in \<^verbatim>\<open>udp_port_bindings\<close> with \<^verbatim>\<open>netns = 0\<close>.
  When both are zero no binding is recorded and nothing else in the state changes.
  \<^verbatim>\<open>fexit/inet_bind\<close> and \<^verbatim>\<open>fexit/inet6_bind\<close> are both \<^verbatim>\<open>sys_exit_bind\<close>.
\<close>

theorem bind_completed:
  assumes "so_type sock AND SOCK_DGRAM \<noteq> 0"
  shows "inet_bind_exit x sock (Some a) 0 s = sys_exit_bind x sock (Some a) 0 s \<and>
     inet6_bind_exit x sock (Some a) 0 s = sys_exit_bind x sock (Some a) 0 s \<and>
     sys_exit_bind x sock (Some a) 0 s =
       (0, if sockaddr_port x a \<noteq> 0
           then s\<lparr>calls := calls s @
                    [Add_port_bind \<lparr>pb_netns = 0, pb_port = sockaddr_port x a\<rparr>
                       Udp_port_bindings]\<rparr>
           else if read_sport x (so_sk sock) \<noteq> 0
           then s\<lparr>calls := calls s @
                    [Read_sport (so_sk sock),
                     Add_port_bind \<lparr>pb_netns = 0, pb_port = read_sport x (so_sk sock)\<rparr>
                       Udp_port_bindings]\<rparr>
           else s\<lparr>calls := calls s @ [Read_sport (so_sk sock)]\<rparr>)"
  using sys_exit_bind_eq [OF assms, of x a s]
  by (simp only: inet_bind_exit_def inet6_bind_exit_def simp_thms)

theorem bind_completed_witness:
  "inet_bind_exit ext0 dgram_socket
       (Some \<lparr>sa_family = AF_INET, sin_port = 0x901F, sin6_port = 0\<rparr>) 0 state0
     = (0, state0\<lparr>calls := [Add_port_bind \<lparr>pb_netns = 0, pb_port = 8080\<rparr> Udp_port_bindings]\<rparr>) \<and>
   inet6_bind_exit (ext0\<lparr>read_sport := (\<lambda>sk. 53)\<rparr>) dgram_socket
       (Some \<lparr>sa_family = AF_INET6, sin_port = 0, sin6_port = 0\<rparr>) 0 state0
     = (0, state0\<lparr>calls := [Read_sport 200,
                              Add_port_bind \<lparr>pb_netns = 0, pb_port = 53\<rparr> Udp_port_bindings]\<rparr>)"
proof -
  have h: "so_type dgram_socket AND SOCK_DGRAM \<noteq> 0"
    by (simp add: dgram_socket_def SOCK_DGRAM_def)
  have p: "sockaddr_port ext0 \<lparr>sa_family = AF_INET, sin_port = 0x901F, sin6_port = 0\<rparr> = 8080"
      "sockaddr_port (ext0\<lparr>read_sport := (\<lambda>sk. 53)\<rparr>)
         \<lparr>sa_family = AF_INET6, sin_port = 0, sin6_port = 0\<rparr> = 0"
      "read_sport (ext0\<lparr>read_sport := (\<lambda>sk. 53)\<rparr>) (so_sk dgram_socket) = 53"
      "so_sk dgram_socket = 200" "calls state0 = []"
    by (simp_all add: sockaddr_port_def ext0_def bpf_ntohs_le_def AF_INET_def AF_INET6_def
        dgram_socket_def state0_def)
  from bind_completed [OF h, of ext0 "\<lparr>sa_family = AF_INET, sin_port = 0x901F, sin6_port = 0\<rparr>" state0]
    bind_completed [OF h, of "ext0\<lparr>read_sport := (\<lambda>sk. 53)\<rparr>"
      "\<lparr>sa_family = AF_INET6, sin_port = 0, sin6_port = 0\<rparr>" state0]
  show ?thesis
    by (simp add: p)
qed

text \<open>
  C7. A receive-completed event whose flags include \<^verbatim>\<open>MSG_PEEK\<close> returns 0 and leaves
  the state as it was, calls included: nothing is resolved, forwarded or written,
  whatever the byte count, the message header and the resolvers.
\<close>

theorem udp_recv_peek_skipped:
  assumes "flags AND MSG_PEEK \<noteq> 0"
  shows "udp_recvmsg_exit x sk msg flags copied pid_tgid s = (0, s) \<and>
         udpv6_recvmsg_exit x sk msg flags copied pid_tgid s = (0, s)"
  using assms
  by (simp add: udp_recvmsg_exit_def udpv6_recvmsg_exit_def handle_ret_udp_recvmsg_def)

theorem udp_recv_peek_skipped_witness:
  "udp_recvmsg_exit (ext0\<lparr>read_conn_tuple_partial := (\<lambda>t sk pid_tgid type. (1, tuple1))\<rparr>)
       200 (Some \<lparr>msg_name = 4096\<rparr>) 0x42 512 7 state0 = (0, state0) \<and>
   udpv6_recvmsg_exit (ext0\<lparr>read_conn_tuple_partial := (\<lambda>t sk pid_tgid type. (1, tuple1))\<rparr>)
       200 (Some \<lparr>msg_name = 4096\<rparr>) 0x42 512 7 state0 = (0, state0)"
proof -
  have h: "(0x42 :: u32) AND MSG_PEEK \<noteq> 0"
    by (simp add: MSG_PEEK_def)
  show ?thesis
    by (rule udp_recv_peek_skipped [OF h])
qed

text \<open>
  C8. When the operation returned a negative value, \<^verbatim>\<open>fexit/tcp_sendmsg\<close>,
  \<^verbatim>\<open>fexit/tcp_recvmsg\<close>, \<^verbatim>\<open>fexit/udp_recvmsg\<close> and \<^verbatim>\<open>fexit/udpv6_recvmsg\<close> return 0 and leave
  the state as it was: no call is made, so no tuple is resolved and no observation
  forwarded, and no map is written.
\<close>

theorem negative_return_skipped:
  "(sent < 0 \<longrightarrow> tcp_sendmsg_exit x sk sent pid_tgid s = (0, s)) \<and>
   (copied < 0 \<longrightarrow>
      tcp_recvmsg_exit x sk copied pid_tgid s = (0, s) \<and>
      udp_recvmsg_exit x sk msg flags copied pid_tgid s = (0, s) \<and>
      udpv6_recvmsg_exit x sk msg flags copied pid_tgid s = (0, s))"
  by (simp add: tcp_sendmsg_exit_def tcp_recvmsg_exit_def udp_recvmsg_exit_def
      udpv6_recvmsg_exit_def handle_ret_udp_recvmsg_def)

theorem negative_return_skipped_witness:
  "tcp_sendmsg_exit (ext0\<lparr>read_conn_tuple := (\<lambda>t sk pid_tgid type. (1, tuple1))\<rparr>)
       100 (- 32) 7 state0 = (0, state0) \<and>
   tcp_recvmsg_exit (ext0\<lparr>read_conn_tuple := (\<lambda>t sk pid_tgid type. (1, tuple1))\<rparr>)
       100 (- 11) 7 state0 = (0, state0) \<and>
   udp_recvmsg_exit (ext0\<lparr>read_conn_tuple := (\<lambda>t sk pid_tgid type. (1, tuple1))\<rparr>)
       200 None 0 (- 11) 7 state0 = (0, state0) \<and>
   udpv6_recvmsg_exit (ext0\<lparr>read_conn_tuple := (\<lambda>t sk pid_tgid type. (1, tuple1))\<rparr>)
       200 None 0 (- 11) 7 state0 = (0, state0)"
proof -
  have h: "(- 32 :: int) < 0" "(- 11 :: int) < 0"
    by simp_all
  from negative_return_skipped
      [where sent = "- 32" and copied = "- 11"
         and x = "ext0\<lparr>read_conn_tuple := (\<lambda>t sk pid_tgid type. (1, tuple1))\<rparr>"
         and pid_tgid = 7 and s = state0 and msg = None and flags = 0, THEN conjunct1, THEN mp,
       OF h(1), of 100]
    negative_return_skipped
      [where sent = "- 32" and copied = "- 11"
         and x = "ext0\<lparr>read_conn_tuple := (\<lambda>t sk pid_tgid type. (1, tuple1))\<rparr>"
         and pid_tgid = 7 and s = state0 and msg = None and flags = 0, THEN conjunct2, THEN mp,
       OF h(2), of 100]
    negative_return_skipped
      [where sent = "- 32" and copied = "- 11"
         and x = "ext0\<lparr>read_conn_tuple := (\<lambda>t sk pid_tgid type. (1, tuple1))\<rparr>"
         and pid_tgid = 7 and s = state0 and msg = None and flags = 0, THEN conjunct2, THEN mp,
       OF h(2), of 200]
  show ?thesis by blast
qed



end
